theory Spec2Isabelle
  imports Complex_Main "HOL-Library.Signed_Division" "HOL-Library.Char_ord"
    "HOL-Library.List_Lexorder"
begin

section \<open>Values shared by the services\<close>

text \<open>
  Go's \<open>float64\<close>: a finite value, an infinity or NaN. The finite values are kept as
  reals; every comparison of the program is against a finite constant, and a comparison
  with NaN is false, as IEEE 754 has it.
\<close>

datatype float64 = Fin real | PosInf | NegInf | NaN

text \<open>\<open>x > c\<close> for a \<open>float64\<close> \<open>x\<close> and a finite constant \<open>c\<close>.\<close>

fun f64_gt :: "float64 \<Rightarrow> real \<Rightarrow> bool" where
  "f64_gt (Fin x) c = (c < x)"
| "f64_gt PosInf c = True"
| "f64_gt NegInf c = False"
| "f64_gt NaN c = False"

text \<open>
  Go errors are values carrying a message: \<open>Err m\<close> is an error made with a message
  (\<open>fmt.Errorf\<close> without a wrapped cause, or an error of a library), and
  \<open>Wrap m e\<close> is \<open>fmt.Errorf("m: %w", e)\<close>.
\<close>

datatype error = Err string | Wrap string error

subsection \<open>Strings\<close>

text \<open>\<open>strings.HasPrefix\<close>, \<open>strings.TrimPrefix\<close> and \<open>strings.HasSuffix\<close>.\<close>

definition HasPrefix :: "string \<Rightarrow> string \<Rightarrow> bool" where
  "HasPrefix s p = (take (length p) s = p)"

definition TrimPrefix :: "string \<Rightarrow> string \<Rightarrow> string" where
  "TrimPrefix s p = (if HasPrefix s p then drop (length p) s else s)"

definition HasSuffix :: "string \<Rightarrow> string \<Rightarrow> bool" where
  "HasSuffix s x = (length x \<le> length s \<and> drop (length s - length x) s = x)"

text \<open>The verb \<open>%d\<close> of \<open>fmt.Sprintf\<close> on an \<open>int\<close>: decimal digits, with a minus sign.\<close>

fun showNat :: "nat \<Rightarrow> string" where
  "showNat n = (if n < 10 then [''0123456789'' ! n]
                else showNat (n div 10) @ [''0123456789'' ! (n mod 10)])"

definition showInt :: "int \<Rightarrow> string" where
  "showInt i = (if i < 0 then CHR ''-'' # showNat (nat (- i)) else showNat (nat i))"

section \<open>Data model (internal/models/cluster.go)\<close>

record ClusterConfig =
  cfg_Name :: string
  cfg_DisplayName :: string
  cfg_Context :: string
  cfg_PrometheusURL :: string
  cfg_Enabled :: bool

record Node =
  node_Name :: string
  node_Status :: string
  node_CPUUsage :: float64
  node_MemUsage :: float64
  node_PodCount :: int
  node_Roles :: "string list"
  node_Age :: string
  node_Version :: string

record Pod =
  pod_Name :: string
  pod_Namespace :: string
  pod_Status :: string
  pod_Restarts :: int
  pod_Age :: string
  pod_Node :: string
  pod_CPUUsage :: float64
  pod_MemUsage :: float64

text \<open>Instants (\<open>time.Time\<close>) are integers: nanoseconds since the epoch.\<close>

record Alert =
  alert_ID :: nat
  alert_Cluster :: string
  alert_Severity :: string
  alert_Message :: string
  alert_Timestamp :: int
  alert_Resolved :: bool

record MetricSnapshot =
  snap_ID :: nat
  snap_Cluster :: string
  snap_CPUUsage :: float64
  snap_MemoryUsage :: float64
  snap_PodCount :: int
  snap_NodeCount :: int
  snap_Timestamp :: int

section \<open>What the cluster API returns (k8s.io/api/core/v1)\<close>

text \<open>
  The fields of \<open>corev1.Node\<close> and \<open>corev1.Pod\<close> that the service reads. A Go map
  is iterated in no fixed order: \<open>kn_Labels\<close> is the list of the map's entries in the
  order one iteration happens to visit them.
\<close>

record NodeCondition =
  cond_Type :: string
  cond_Status :: string

record K8sNode =
  kn_Name :: string
  kn_Labels :: "(string \<times> string) list"
  kn_CreationTimestamp :: int
  kn_Conditions :: "NodeCondition list"
  kn_KubeletVersion :: string

record K8sPod =
  kp_Name :: string
  kp_Namespace :: string
  kp_Phase :: string
  kp_RestartCounts :: "int list"
  kp_CreationTimestamp :: int
  kp_NodeName :: string

datatype RestConfig = RestConfig string string

datatype Clientset = Clientset RestConfig

section \<open>What a metrics backend returns (internal/services/prometheus.go)\<close>

text \<open>A decoded JSON value, as \<open>encoding/json\<close> stores it in an \<open>interface{}\<close>.\<close>

datatype json =
    JNull
  | JBool bool
  | JNumber float64
  | JString string
  | JArray "json list"
  | JObject "(string \<times> json) list"

record PromSample =
  ps_Metric :: "(string \<times> string) list"
  ps_Value :: "json list"

record PrometheusResult =
  pr_Status :: string
  pr_ResultType :: string
  pr_Result :: "PromSample list"

text \<open>
  One HTTP exchange of \<open>Query\<close>: building the request, sending it and reading the
  body can each fail; otherwise the body arrives.
\<close>

datatype http_outcome =
    RequestError error
  | DoError error
  | ReadError error
  | Body string

section \<open>The store's tables (internal/store)\<close>

text \<open>
  The database behind \<open>gorm\<close>, as the two tables it holds: rows in insertion order,
  and for each table the last primary key it assigned.
\<close>

record MetricsStore =
  snapshots :: "MetricSnapshot list"
  alerts :: "Alert list"
  snapshotSeq :: nat
  alertSeq :: nat

section \<open>The world outside the program\<close>

text \<open>
  Everything the program reads from outside is a field of \<open>world\<close>. A call whose
  answer may change from one call to the next (the clock, the cluster API, HTTP, the
  database driver) takes the number of the external step at which it is made; the
  program threads that number through its calls, so no two calls share one.
  \<open>dbExec w t\<close> is the driver's verdict on the statement issued at step \<open>t\<close>:
  \<open>None\<close> when it is executed, an error when it is not.
  \<open>sscanF\<close> is \<open>fmt.Sscanf(s, "%f", &v)\<close> and \<open>sprintF1\<close> is the verb \<open>%.1f\<close>.
  \<open>zoneOffset w i\<close> is the offset of the location \<open>time.Local\<close> at the instant \<open>i\<close>,
  in seconds east of UTC. \<open>parseGlob\<close> is \<open>template.ParseGlob\<close>, which fails when no
  file matches the pattern or a template does not parse, and \<open>listenAndServe w addr\<close> is
  what \<open>http.Server.ListenAndServe\<close> returns on \<open>addr\<close>: \<open>http.ErrServerClosed\<close> when
  the server has served until it was shut down, another error when it cannot serve.
\<close>

record world =
  clock :: "nat \<Rightarrow> int"
  getenv :: "string \<Rightarrow> string"
  userHomeDir :: string
  filepathJoin :: "string list \<Rightarrow> string"
  filepathDir :: "string \<Rightarrow> string"
  mkdirAll :: "string \<Rightarrow> error option"
  readFile :: "string \<Rightarrow> error + string"
  yamlUnmarshal :: "string \<Rightarrow> error + ClusterConfig list"
  clientConfig :: "string \<Rightarrow> string \<Rightarrow> error + RestConfig"
  newForConfig :: "RestConfig \<Rightarrow> error + Clientset"
  listNodes :: "nat \<Rightarrow> Clientset \<Rightarrow> error + K8sNode list"
  listPods :: "nat \<Rightarrow> Clientset \<Rightarrow> string \<Rightarrow> error + K8sPod list"
  httpGet :: "nat \<Rightarrow> string \<Rightarrow> string \<Rightarrow> http_outcome"
  jsonUnmarshal :: "string \<Rightarrow> error + PrometheusResult"
  sscanF :: "string \<Rightarrow> error + float64"
  sprintF1 :: "float64 \<Rightarrow> string"
  dbOpen :: "string \<Rightarrow> error + MetricsStore"
  dbMigrate :: "string \<Rightarrow> error option"
  dbExec :: "nat \<Rightarrow> error option"
  zoneOffset :: "int \<Rightarrow> int"
  parseGlob :: "string \<Rightarrow> error option"
  listenAndServe :: "string \<Rightarrow> error option"

section \<open>Durations and ages (internal/services/kubernetes.go: formatAge)\<close>

text \<open>
  A \<open>time.Duration\<close> is an \<open>int64\<close> of nanoseconds. \<open>time.Since\<close> subtracts and
  saturates at the ends of that range.
\<close>

definition minDuration :: int where
  "minDuration = - (2 ^ 63)"

definition maxDuration :: int where
  "maxDuration = 2 ^ 63 - 1"

definition Since :: "int \<Rightarrow> int \<Rightarrow> int" where
  "Since now t = max minDuration (min maxDuration (now - t))"

definition Second :: int where
  "Second = 1000000000"

definition Minute :: int where
  "Minute = 60 * Second"

definition Hour :: int where
  "Hour = 60 * Minute"

text \<open>
  The arithmetic of \<open>float64\<close> on finite values: every operation yields the exact
  result rounded to the nearest number with a 53-bit significand, ties to the even one.
  \<open>rne\<close> rounds a real to an integer that way, \<open>ex2 x\<close> is the binary exponent of
  \<open>x\<close>, and \<open>fl\<close> rounds to 53 significant bits. The exponent is not bounded here:
  durations lie between \<open>-2^63\<close> and \<open>2^63\<close> and the smallest quotient that occurs is
  \<open>1 / 3.6e12\<close>, far from overflow and from the subnormal range.
\<close>

definition rne :: "real \<Rightarrow> int" where
  "rne y = (let f = \<lfloor>y\<rfloor>; r = y - of_int f in
            if r < 1/2 then f else if 1/2 < r then f + 1 else if even f then f else f + 1)"

definition p2 :: "int \<Rightarrow> real" where
  "p2 k = 2 powr (of_int k)"

definition ex2 :: "real \<Rightarrow> int" where
  "ex2 x = \<lfloor>log 2 \<bar>x\<bar>\<rfloor>"

definition fl :: "real \<Rightarrow> real" where
  "fl x = (if x = 0 then 0 else of_int (rne (x / p2 (ex2 x - 52))) * p2 (ex2 x - 52))"

text \<open>
  \<open>Duration.Hours\<close>, \<open>Minutes\<close> and \<open>Seconds\<close> of package \<open>time\<close>:
  \<^verbatim>\<open>
  func (d Duration) Hours() float64 {
      hour := d / Hour
      nsec := d % Hour
      return float64(hour) + float64(nsec)/(60*60*1e9)
  }
  \<close>
  with Go's integer division, which truncates towards zero.
\<close>

definition Hours :: "int \<Rightarrow> real" where
  "Hours d = fl (fl (of_int (d sdiv Hour)) + fl (fl (of_int (d smod Hour)) / 3600000000000))"

definition Minutes :: "int \<Rightarrow> real" where
  "Minutes d = fl (fl (of_int (d sdiv Minute)) + fl (fl (of_int (d smod Minute)) / 60000000000))"

definition Seconds :: "int \<Rightarrow> real" where
  "Seconds d = fl (fl (of_int (d sdiv Second)) + fl (fl (of_int (d smod Second)) / 1000000000))"

text \<open>The conversion \<open>int(x)\<close> of a \<open>float64\<close>: towards zero.\<close>

definition truncInt :: "real \<Rightarrow> int" where
  "truncInt x = (if 0 \<le> x then \<lfloor>x\<rfloor> else \<lceil>x\<rceil>)"

text \<open>
  \<^verbatim>\<open>
  func formatAge(t time.Time) string {
      duration := time.Since(t)
      if duration.Hours() > 24 {
          days := int(duration.Hours() / 24)
          return fmt.Sprintf("%dd", days)
      }
      if duration.Hours() >= 1 { return fmt.Sprintf("%dh", int(duration.Hours())) }
      if duration.Minutes() >= 1 { return fmt.Sprintf("%dm", int(duration.Minutes())) }
      return fmt.Sprintf("%ds", int(duration.Seconds()))
  }
  \<close>
  The clock's reading is the argument \<open>now\<close>.
\<close>

definition formatAge :: "int \<Rightarrow> int \<Rightarrow> string" where
  "formatAge now t =
     (let duration = Since now t in
      if 24 < Hours duration then
        (let days = truncInt (fl (Hours duration / 24)) in showInt days @ ''d'')
      else if 1 \<le> Hours duration then showInt (truncInt (Hours duration)) @ ''h''
      else if 1 \<le> Minutes duration then showInt (truncInt (Minutes duration)) @ ''m''
      else showInt (truncInt (Seconds duration)) @ ''s'')"

section \<open>The Kubernetes service (internal/services/kubernetes.go)\<close>

text \<open>
  \<^verbatim>\<open>
  func getNodeStatus(node corev1.Node) string {
      for _, condition := range node.Status.Conditions {
          if condition.Type == corev1.NodeReady {
              if condition.Status == corev1.ConditionTrue { return "Ready" }
              return "NotReady"
          }
      }
      return "Unknown"
  }
  \<close>
\<close>

fun scanConditions :: "NodeCondition list \<Rightarrow> string" where
  "scanConditions [] = ''Unknown''"
| "scanConditions (condition # rest) =
     (if cond_Type condition = ''Ready''
      then (if cond_Status condition = ''True'' then ''Ready'' else ''NotReady'')
      else scanConditions rest)"

definition getNodeStatus :: "K8sNode \<Rightarrow> string" where
  "getNodeStatus node = scanConditions (kn_Conditions node)"

text \<open>
  \<^verbatim>\<open>
  func getNodeRoles(node corev1.Node) []string {
      roles := []string{}
      for label := range node.Labels {
          if strings.HasPrefix(label, "node-role.kubernetes.io/") {
              role := strings.TrimPrefix(label, "node-role.kubernetes.io/")
              if role != "" { roles = append(roles, role) }
          }
      }
      if len(roles) == 0 { roles = append(roles, "worker") }
      return roles
  }
  \<close>
\<close>

definition rolePrefix :: string where
  "rolePrefix = ''node-role.kubernetes.io/''"

fun collectRoles :: "(string \<times> string) list \<Rightarrow> string list \<Rightarrow> string list" where
  "collectRoles [] roles = roles"
| "collectRoles ((label, v) # rest) roles =
     (if HasPrefix label rolePrefix then
        (let role = TrimPrefix label rolePrefix in
         if role \<noteq> [] then collectRoles rest (roles @ [role]) else collectRoles rest roles)
      else collectRoles rest roles)"

definition getNodeRoles :: "K8sNode \<Rightarrow> string list" where
  "getNodeRoles node =
     (let roles = collectRoles (kn_Labels node) [] in
      if length roles = 0 then roles @ [''worker''] else roles)"

record KubernetesService =
  ks_clients :: "string \<rightharpoonup> Clientset"
  ks_configs :: "ClusterConfig list"
  ks_configPath :: string





definition GetConfigs :: "KubernetesService \<Rightarrow> ClusterConfig list" where
  "GetConfigs s = ks_configs s"

definition GetClient :: "KubernetesService \<Rightarrow> string \<Rightarrow> Clientset option" where
  "GetClient s clusterName = ks_clients s clusterName"

text \<open>
  The loops of \<open>GetNodes\<close> and \<open>GetPods\<close> over the listed items. \<open>formatAge\<close> reads
  the clock once for each item.
\<close>

fun nodesFrom :: "world \<Rightarrow> K8sNode list \<Rightarrow> nat \<Rightarrow> Node list \<times> nat" where
  "nodesFrom w [] t = ([], t)"
| "nodesFrom w (n # rest) t =
     (let node = \<lparr>node_Name = kn_Name n, node_Status = getNodeStatus n,
                   node_CPUUsage = Fin 0, node_MemUsage = Fin 0, node_PodCount = 0,
                   node_Roles = getNodeRoles n,
                   node_Age = formatAge (clock w t) (kn_CreationTimestamp n),
                   node_Version = kn_KubeletVersion n\<rparr>;
          (nodes, t') = nodesFrom w rest (Suc t)
      in (node # nodes, t'))"

definition GetNodes ::
  "world \<Rightarrow> KubernetesService \<Rightarrow> string \<Rightarrow> nat \<Rightarrow> (error + Node list) \<times> nat" where
  "GetNodes w s clusterName t =
     (case GetClient s clusterName of
        None \<Rightarrow> (Inl (Err (''cluster '' @ clusterName @ '' not found'')), t)
      | Some client \<Rightarrow>
          (case listNodes w t client of
             Inl err \<Rightarrow> (Inl err, Suc t)
           | Inr items \<Rightarrow> (let (nodes, t') = nodesFrom w items (Suc t) in (Inr nodes, t'))))"

fun podsFrom :: "world \<Rightarrow> K8sPod list \<Rightarrow> nat \<Rightarrow> Pod list \<times> nat" where
  "podsFrom w [] t = ([], t)"
| "podsFrom w (p # rest) t =
     (let restarts = foldl (+) 0 (kp_RestartCounts p);
          pod = \<lparr>pod_Name = kp_Name p, pod_Namespace = kp_Namespace p,
                  pod_Status = kp_Phase p, pod_Restarts = restarts,
                  pod_Age = formatAge (clock w t) (kp_CreationTimestamp p),
                  pod_Node = kp_NodeName p, pod_CPUUsage = Fin 0, pod_MemUsage = Fin 0\<rparr>;
          (pods, t') = podsFrom w rest (Suc t)
      in (pod # pods, t'))"

definition NamespaceAll :: string where
  "NamespaceAll = []"

definition GetPods ::
  "world \<Rightarrow> KubernetesService \<Rightarrow> string \<Rightarrow> string \<Rightarrow> nat \<Rightarrow> (error + Pod list) \<times> nat" where
  "GetPods w s clusterName namespace t =
     (case GetClient s clusterName of
        None \<Rightarrow> (Inl (Err (''cluster '' @ clusterName @ '' not found'')), t)
      | Some client \<Rightarrow>
          (let ns = (if namespace = [] then NamespaceAll else namespace) in
           case listPods w t client ns of
             Inl err \<Rightarrow> (Inl err, Suc t)
           | Inr items \<Rightarrow> (let (pods, t') = podsFrom w items (Suc t) in (Inr pods, t'))))"

text \<open>
  The counting pass of \<open>GetPodSummary\<close>:
  \<^verbatim>\<open>
  for _, pod := range pods {
      switch pod.Status {
      case "Running": running++
      case "Pending": pending++
      case "Failed":  failed++
      }
      total++
  }
  \<close>
\<close>

fun countPod :: "int \<times> int \<times> int \<times> int \<Rightarrow> Pod \<Rightarrow> int \<times> int \<times> int \<times> int" where
  "countPod (running, pending, failed, total') pod =
     (if pod_Status pod = ''Running'' then (running + 1, pending, failed, total' + 1)
      else if pod_Status pod = ''Pending'' then (running, pending + 1, failed, total' + 1)
      else if pod_Status pod = ''Failed'' then (running, pending, failed + 1, total' + 1)
      else (running, pending, failed, total' + 1))"

definition countPods :: "Pod list \<Rightarrow> int \<times> int \<times> int \<times> int" where
  "countPods pods = foldl countPod (0, 0, 0, 0) pods"

definition GetPodSummary ::
  "world \<Rightarrow> KubernetesService \<Rightarrow> string \<Rightarrow> nat \<Rightarrow> (error + int \<times> int \<times> int \<times> int) \<times> nat" where
  "GetPodSummary w s clusterName t =
     (case GetPods w s clusterName [] t of
        (Inl err, t') \<Rightarrow> (Inl err, t')
      | (Inr pods, t') \<Rightarrow> (Inr (countPods pods), t'))"

definition GetNodeCount ::
  "world \<Rightarrow> KubernetesService \<Rightarrow> string \<Rightarrow> nat \<Rightarrow> (error + int) \<times> nat" where
  "GetNodeCount w s clusterName t =
     (case GetNodes w s clusterName t of
        (Inl err, t') \<Rightarrow> (Inl err, t')
      | (Inr nodes, t') \<Rightarrow> (Inr (int (length nodes)), t'))"

section \<open>The Prometheus service (internal/services/prometheus.go)\<close>

definition Query :: "world \<Rightarrow> string \<Rightarrow> string \<Rightarrow> nat \<Rightarrow> (error + PrometheusResult) \<times> nat" where
  "Query w prometheusURL query t =
     (let endpoint = prometheusURL @ ''/api/v1/query'' in
      case httpGet w t endpoint query of
        RequestError err \<Rightarrow> (Inl (Wrap ''failed to create request'' err), Suc t)
      | DoError err \<Rightarrow> (Inl (Wrap ''failed to query Prometheus'' err), Suc t)
      | ReadError err \<Rightarrow> (Inl (Wrap ''failed to read response'' err), Suc t)
      | Body body \<Rightarrow>
          (case jsonUnmarshal w body of
             Inl err \<Rightarrow> (Inl (Wrap ''failed to parse response'' err), Suc t)
           | Inr result \<Rightarrow>
               if pr_Status result \<noteq> ''success''
               then (Inl (Err (''Prometheus query failed: '' @ pr_Status result)), Suc t)
               else (Inr result, Suc t)))"

text \<open>
  \<^verbatim>\<open>
  func (s *PrometheusService) extractFirstValue(result *PrometheusResult) (float64, error) {
      if len(result.Data.Result) == 0 { return 0, nil }
      if len(result.Data.Result[0].Value) < 2 {
          return 0, fmt.Errorf("unexpected result format")
      }
      valueStr, ok := result.Data.Result[0].Value[1].(string)
      if !ok { return 0, fmt.Errorf("unexpected value type") }
      var value float64
      _, err := fmt.Sscanf(valueStr, "%f", &value)
      if err != nil { return 0, fmt.Errorf("failed to parse value: %w", err) }
      return value, nil
  }
  \<close>
\<close>

definition extractFirstValue :: "world \<Rightarrow> PrometheusResult \<Rightarrow> error + float64" where
  "extractFirstValue w result =
     (case pr_Result result of
        [] \<Rightarrow> Inr (Fin 0)
      | first # _ \<Rightarrow>
          if length (ps_Value first) < 2 then Inl (Err ''unexpected result format'')
          else
            (case ps_Value first ! 1 of
               JString valueStr \<Rightarrow>
                 (case sscanF w valueStr of
                    Inl err \<Rightarrow> Inl (Wrap ''failed to parse value'' err)
                  | Inr v \<Rightarrow> Inr v)
             | _ \<Rightarrow> Inl (Err ''unexpected value type'')))"

text \<open>The two cluster-wide query expressions; \<open>CHR 0x22\<close> is the double quote.\<close>

definition cpuQuery :: string where
  "cpuQuery = ''100 - (avg(irate(node_cpu_seconds_total{mode='' @ [CHR 0x22] @ ''idle''
                @ [CHR 0x22] @ ''}[5m])) * 100)''"

definition memQuery :: string where
  "memQuery = ''100 * (1 - sum(node_memory_MemAvailable_bytes) / sum(node_memory_MemTotal_bytes))''"

definition GetCPUUsage :: "world \<Rightarrow> string \<Rightarrow> nat \<Rightarrow> (error + float64) \<times> nat" where
  "GetCPUUsage w prometheusURL t =
     (case Query w prometheusURL cpuQuery t of
        (Inl err, t') \<Rightarrow> (Inl err, t')
      | (Inr result, t') \<Rightarrow> (extractFirstValue w result, t'))"

definition GetMemoryUsage :: "world \<Rightarrow> string \<Rightarrow> nat \<Rightarrow> (error + float64) \<times> nat" where
  "GetMemoryUsage w prometheusURL t =
     (case Query w prometheusURL memQuery t of
        (Inl err, t') \<Rightarrow> (Inl err, t')
      | (Inr result, t') \<Rightarrow> (extractFirstValue w result, t'))"

definition CheckConnectivity :: "world \<Rightarrow> string \<Rightarrow> nat \<Rightarrow> bool \<times> nat" where
  "CheckConnectivity w prometheusURL t =
     (case Query w prometheusURL ''up'' t of
        (Inl err, t') \<Rightarrow> (False, t')
      | (Inr result, t') \<Rightarrow> (True, t'))"

section \<open>The metrics store (internal/store)\<close>

text \<open>
  \<open>db.Create\<close> on a table whose primary key is an auto-incremented integer: a row
  with key 0 gets the next key; a row that brings its own key is inserted under it,
  unless the key is taken. The stored row is also what the caller's struct holds
  afterwards. A statement the driver does not execute changes nothing.
\<close>

definition createSnapshot ::
  "world \<Rightarrow> MetricsStore \<Rightarrow> MetricSnapshot \<Rightarrow> nat \<Rightarrow> error option \<times> MetricSnapshot \<times> MetricsStore" where
  "createSnapshot w s row t =
     (case dbExec w t of
        Some err \<Rightarrow> (Some err, row, s)
      | None \<Rightarrow>
          if snap_ID row = 0 then
            (let row' = row\<lparr>snap_ID := Suc (snapshotSeq s)\<rparr> in
             (None, row', s\<lparr>snapshots := snapshots s @ [row'], snapshotSeq := Suc (snapshotSeq s)\<rparr>))
          else if snap_ID row \<in> set (map snap_ID (snapshots s)) then
            (Some (Err ''UNIQUE constraint failed: metric_snapshots.id''), row, s)
          else
            (None, row, s\<lparr>snapshots := snapshots s @ [row],
                            snapshotSeq := max (snapshotSeq s) (snap_ID row)\<rparr>))"

definition createAlert ::
  "world \<Rightarrow> MetricsStore \<Rightarrow> Alert \<Rightarrow> nat \<Rightarrow> error option \<times> Alert \<times> MetricsStore" where
  "createAlert w s row t =
     (case dbExec w t of
        Some err \<Rightarrow> (Some err, row, s)
      | None \<Rightarrow>
          if alert_ID row = 0 then
            (let row' = row\<lparr>alert_ID := Suc (alertSeq s)\<rparr> in
             (None, row', s\<lparr>alerts := alerts s @ [row'], alertSeq := Suc (alertSeq s)\<rparr>))
          else if alert_ID row \<in> set (map alert_ID (alerts s)) then
            (Some (Err ''UNIQUE constraint failed: alerts.id''), row, s)
          else
            (None, row, s\<lparr>alerts := alerts s @ [row],
                            alertSeq := max (alertSeq s) (alert_ID row)\<rparr>))"


text \<open>
  \<^verbatim>\<open>
  func (s *MetricsStore) SaveSnapshot(snapshot *models.MetricSnapshot) error {
      snapshot.Timestamp = time.Now()
      return s.db.Create(snapshot).Error
  }
  \<close>
  Each store operation returns its error, the struct it was handed (for the two that
  write through the pointer), the tables and the number of the next external step.
\<close>

definition SaveSnapshot ::
  "world \<Rightarrow> MetricsStore \<Rightarrow> MetricSnapshot \<Rightarrow> nat
    \<Rightarrow> error option \<times> MetricSnapshot \<times> MetricsStore \<times> nat" where
  "SaveSnapshot w s snapshot t =
     (let stamped = snapshot\<lparr>snap_Timestamp := clock w t\<rparr>;
          (err, row, s') = createSnapshot w s stamped t
      in (err, row, s', Suc t))"

section \<open>Timestamps as the database holds them\<close>

text \<open>
  The store is opened with \<open>gorm.io/driver/sqlite\<close>. That driver hands a \<open>time.Time\<close>
  to SQLite as text: the time formatted in its own location with the layout
  \<^verbatim>\<open>2006-01-02 15:04:05.999999999-07:00\<close>. Every \<open>time.Time\<close> the store
  handles comes from \<open>time.Now()\<close>, whose location is \<open>time.Local\<close>, so the text of
  an instant is its local date and clock reading followed by the offset that
  \<open>time.Local\<close> has at that instant. SQLite compares and orders two texts byte by
  byte, and a text that is the start of another comes first: the order \<open><\<close> of
  strings.

  \<open>appendInt\<close> writes a number with at least \<open>width\<close> digits. The date of a day,
  counted from 1 January 1970, is that of the proleptic Gregorian calendar: a cycle of
  146097 days holds 400 years, and within the cycle the year starts on 1 March.
\<close>

definition appendInt :: "int \<Rightarrow> nat \<Rightarrow> string" where
  "appendInt x width =
     (if x < 0 then ''-'' else [])
     @ replicate (width - length (showNat (nat \<bar>x\<bar>))) (CHR ''0'') @ showNat (nat \<bar>x\<bar>)"

definition dayOfEra :: "int \<Rightarrow> int" where
  "dayOfEra days = (days + 719468) mod 146097"

definition yearOfEra :: "int \<Rightarrow> int" where
  "yearOfEra days =
     (dayOfEra days - dayOfEra days div 1460 + dayOfEra days div 36524
        - dayOfEra days div 146096) div 365"

definition dayOfYear :: "int \<Rightarrow> int" where
  "dayOfYear days =
     dayOfEra days - (365 * yearOfEra days + yearOfEra days div 4 - yearOfEra days div 100)"

definition monthOfYear :: "int \<Rightarrow> int" where
  "monthOfYear days = (5 * dayOfYear days + 2) div 153"

definition Day :: "int \<Rightarrow> int" where
  "Day days = dayOfYear days - (153 * monthOfYear days + 2) div 5 + 1"

definition Month :: "int \<Rightarrow> int" where
  "Month days = (if monthOfYear days < 10 then monthOfYear days + 3 else monthOfYear days - 9)"

definition Year :: "int \<Rightarrow> int" where
  "Year days =
     yearOfEra days + (days + 719468) div 146097 * 400 + (if Month days \<le> 2 then 1 else 0)"

text \<open>
  The fraction of a second, for the layout's \<open>.999999999\<close>: nothing when it is zero,
  else a point and nine digits without the zeros at their end. The zone, for the
  layout's \<open>-07:00\<close>: the offset in whole minutes, truncated towards zero, with its sign.
\<close>

definition formatNano :: "int \<Rightarrow> string" where
  "formatNano nanosec =
     (if nanosec = 0 then []
      else CHR ''.'' # rev (dropWhile (\<lambda>c. c = CHR ''0'') (rev (appendInt nanosec 9))))"

definition formatZone :: "int \<Rightarrow> string" where
  "formatZone offset =
     (if offset \<le> - 60 then ''-'' else ''+'')
     @ appendInt (\<bar>offset\<bar> div 60 div 60) 2 @ '':'' @ appendInt (\<bar>offset\<bar> div 60 mod 60) 2"

text \<open>
  \<open>formatLocal secs nanosec offset\<close> is the text of the instant that lies \<open>secs\<close>
  seconds of local time and \<open>nanosec\<close> nanoseconds after 1 January 1970, 00:00, and
  \<open>formatTimestamp w i\<close> is the text the driver binds for the instant \<open>i\<close>, given in
  nanoseconds from the epoch.
\<close>

definition formatLocal :: "int \<Rightarrow> int \<Rightarrow> int \<Rightarrow> string" where
  "formatLocal secs nanosec offset =
     appendInt (Year (secs div 86400)) 4 @ ''-'' @ appendInt (Month (secs div 86400)) 2 @ ''-''
     @ appendInt (Day (secs div 86400)) 2 @ '' ''
     @ appendInt (secs mod 86400 div 3600) 2 @ '':'' @ appendInt (secs mod 3600 div 60) 2 @ '':''
     @ appendInt (secs mod 60) 2 @ formatNano nanosec @ formatZone offset"

definition formatTimestamp :: "world \<Rightarrow> int \<Rightarrow> string" where
  "formatTimestamp w i =
     formatLocal (i div 1000000000 + zoneOffset w i) (i mod 1000000000) (zoneOffset w i)"

text \<open>
  The negation of a \<open>time.Duration\<close> wraps in \<open>int64\<close>: the least duration is its own
  negation. \<open>Time.Add\<close> moves an instant by a duration.
\<close>

definition negDuration :: "int \<Rightarrow> int" where
  "negDuration d = (- d + 2 ^ 63) mod 2 ^ 64 - 2 ^ 63"

definition Add :: "int \<Rightarrow> int \<Rightarrow> int" where
  "Add t d = t + d"

section \<open>Queries of the store (internal/store)\<close>

text \<open>
  \<^verbatim>\<open>
  func (s *MetricsStore) GetSnapshots(cluster string, since time.Duration) ([]models.MetricSnapshot, error) {
      var snapshots []models.MetricSnapshot
      cutoff := time.Now().Add(-since)
      err := s.db.Where("cluster = ? AND timestamp > ?", cluster, cutoff).
          Order("timestamp ASC").Find(&snapshots).Error
      return snapshots, err
  }
  \<close>
  The column \<open>timestamp\<close> holds the text of each row's instant and the cutoff is bound
  as text, so the comparison and the order are those of the texts. Rows with one text
  come in the order of their insertion.
\<close>

definition GetSnapshots ::
  "world \<Rightarrow> MetricsStore \<Rightarrow> string \<Rightarrow> int \<Rightarrow> nat \<Rightarrow> (error + MetricSnapshot list) \<times> nat" where
  "GetSnapshots w s cluster since t =
     (let cutoff = Add (clock w t) (negDuration since) in
      case dbExec w t of
        Some err \<Rightarrow> (Inl err, Suc t)
      | None \<Rightarrow>
          (Inr (sort_key (\<lambda>r. formatTimestamp w (snap_Timestamp r))
                  (filter (\<lambda>r. snap_Cluster r = cluster
                                \<and> formatTimestamp w cutoff < formatTimestamp w (snap_Timestamp r))
                     (snapshots s))),
           Suc t))"

text \<open>
  \<^verbatim>\<open>
  func (s *MetricsStore) CleanupOldSnapshots(olderThan time.Duration) error {
      cutoff := time.Now().Add(-olderThan)
      return s.db.Where("timestamp < ?", cutoff).Delete(&models.MetricSnapshot{}).Error
  }
  \<close>
\<close>

definition CleanupOldSnapshots ::
  "world \<Rightarrow> MetricsStore \<Rightarrow> int \<Rightarrow> nat \<Rightarrow> error option \<times> MetricsStore \<times> nat" where
  "CleanupOldSnapshots w s olderThan t =
     (let cutoff = Add (clock w t) (negDuration olderThan) in
      case dbExec w t of
        Some err \<Rightarrow> (Some err, s, Suc t)
      | None \<Rightarrow>
          (None,
           s\<lparr>snapshots :=
                filter (\<lambda>r. \<not> formatTimestamp w (snap_Timestamp r) < formatTimestamp w cutoff)
                  (snapshots s)\<rparr>,
           Suc t))"

definition SaveAlert ::
  "world \<Rightarrow> MetricsStore \<Rightarrow> Alert \<Rightarrow> nat \<Rightarrow> error option \<times> Alert \<times> MetricsStore \<times> nat" where
  "SaveAlert w s alert t =
     (let stamped = alert\<lparr>alert_Timestamp := clock w t\<rparr>;
          (err, row, s') = createAlert w s stamped t
      in (err, row, s', Suc t))"




section \<open>The collector (cmd/server/main.go)\<close>

text \<open>The zero value of \<open>time.Time\<close>: 1 January of year 1, in nanoseconds from the epoch.\<close>

definition zeroTime :: int where
  "zeroTime = - 62135596800000000000"

definition newAlert :: "string \<Rightarrow> string \<Rightarrow> string \<Rightarrow> Alert" where
  "newAlert cluster severity message =
     \<lparr>alert_ID = 0, alert_Cluster = cluster, alert_Severity = severity,
      alert_Message = message, alert_Timestamp = zeroTime, alert_Resolved = False\<rparr>"

text \<open>
  \<open>checkAndCreateAlerts\<close>: three independent checks, each saving at most one alert;
  an error of \<open>SaveAlert\<close> is logged and nothing else.
\<close>

definition raiseAlert :: "world \<Rightarrow> MetricsStore \<Rightarrow> Alert \<Rightarrow> nat \<Rightarrow> MetricsStore \<times> nat" where
  "raiseAlert w s alert t = (let (err, row, s', t') = SaveAlert w s alert t in (s', t'))"

definition checkAndCreateAlerts ::
  "world \<Rightarrow> MetricsStore \<Rightarrow> string \<Rightarrow> float64 \<Rightarrow> float64 \<Rightarrow> int \<Rightarrow> nat \<Rightarrow> MetricsStore \<times> nat" where
  "checkAndCreateAlerts w metricsStore cluster cpuUsage memUsage failedPods t =
     (let (s1, t1) =
            (if f64_gt cpuUsage 95 then
               raiseAlert w metricsStore
                 (newAlert cluster ''Critical''
                    (''CPU usage is critically high at '' @ sprintF1 w cpuUsage @ ''%'')) t
             else if f64_gt cpuUsage 80 then
               raiseAlert w metricsStore
                 (newAlert cluster ''Warning''
                    (''CPU usage is elevated at '' @ sprintF1 w cpuUsage @ ''%'')) t
             else (metricsStore, t));
          (s2, t2) =
            (if f64_gt memUsage 95 then
               raiseAlert w s1
                 (newAlert cluster ''Critical''
                    (''Memory usage is critically high at '' @ sprintF1 w memUsage @ ''%'')) t1
             else if f64_gt memUsage 80 then
               raiseAlert w s1
                 (newAlert cluster ''Warning''
                    (''Memory usage is elevated at '' @ sprintF1 w memUsage @ ''%'')) t1
             else (s1, t1))
      in
        if 0 < failedPods then
          raiseAlert w s2
            (newAlert cluster ''Warning'' (showInt failedPods @ '' pod(s) in failed state'')) t2
        else (s2, t2))"

text \<open>
  The body of the loop of \<open>collectMetrics\<close> up to the snapshot it has gathered: each
  of the inventory and metrics calls either fills its field or leaves the zero value.
\<close>

definition gatherSnapshot ::
  "world \<Rightarrow> KubernetesService \<Rightarrow> ClusterConfig \<Rightarrow> nat \<Rightarrow> MetricSnapshot \<times> int \<times> nat" where
  "gatherSnapshot w k8s cfg t =
     (let snapshot = \<lparr>snap_ID = 0, snap_Cluster = cfg_Name cfg, snap_CPUUsage = Fin 0,
                       snap_MemoryUsage = Fin 0, snap_PodCount = 0, snap_NodeCount = 0,
                       snap_Timestamp = zeroTime\<rparr>;
          failed = 0;
          (r1, t1) = GetNodeCount w k8s (cfg_Name cfg) t;
          snapshot = (case r1 of Inr nodeCount \<Rightarrow> snapshot\<lparr>snap_NodeCount := nodeCount\<rparr>
                      | Inl err \<Rightarrow> snapshot);
          (r2, t2) = GetPodSummary w k8s (cfg_Name cfg) t1;
          (snapshot, failed) =
            (case r2 of
               Inr (running, pending, failedPods, podCount) \<Rightarrow>
                 (snapshot\<lparr>snap_PodCount := podCount\<rparr>, failedPods)
             | Inl err \<Rightarrow> (snapshot, failed));
          (up, t3) = CheckConnectivity w (cfg_PrometheusURL cfg) t2
      in
        if up then
          (let (r4, t4) = GetCPUUsage w (cfg_PrometheusURL cfg) t3;
               snapshot = (case r4 of Inr cpu \<Rightarrow> snapshot\<lparr>snap_CPUUsage := cpu\<rparr>
                           | Inl err \<Rightarrow> snapshot);
               (r5, t5) = GetMemoryUsage w (cfg_PrometheusURL cfg) t4;
               snapshot = (case r5 of Inr mem \<Rightarrow> snapshot\<lparr>snap_MemoryUsage := mem\<rparr>
                           | Inl err \<Rightarrow> snapshot)
           in (snapshot, failed, t5))
        else (snapshot, failed, t3))"

definition collectCluster ::
  "world \<Rightarrow> KubernetesService \<Rightarrow> MetricsStore \<times> nat \<Rightarrow> ClusterConfig \<Rightarrow> MetricsStore \<times> nat" where
  "collectCluster w k8s st cfg =
     (case st of (metricsStore, t) \<Rightarrow>
        if \<not> cfg_Enabled cfg then (metricsStore, t)
        else
          (let (snapshot, failed, t1) = gatherSnapshot w k8s cfg t;
               (err, saved, s1, t2) = SaveSnapshot w metricsStore snapshot t1
           in checkAndCreateAlerts w s1 (cfg_Name cfg)
                (snap_CPUUsage saved) (snap_MemoryUsage saved) failed t2))"

text \<open>
  \<^verbatim>\<open>
  func collectMetrics(k8s *services.KubernetesService, prom *services.PrometheusService,
                      metricsStore *store.MetricsStore) {
      if k8s == nil { return }
      ...
      for _, cfg := range k8s.GetConfigs() {
          if !cfg.Enabled { continue }
          ...
      }
  }
  \<close>
  A nil service is \<open>None\<close>.
\<close>

definition collectMetrics ::
  "world \<Rightarrow> KubernetesService option \<Rightarrow> MetricsStore \<Rightarrow> nat \<Rightarrow> MetricsStore \<times> nat" where
  "collectMetrics w k8s metricsStore t =
     (case k8s of
        None \<Rightarrow> (metricsStore, t)
      | Some svc \<Rightarrow> foldl (collectCluster w svc) (metricsStore, t) (GetConfigs svc))"

text \<open>
  \<open>startMetricsCollector\<close> serves two tickers for ever; here it serves the ticks of a
  given list, in order. The retention window is 24 hours.
\<close>

datatype tick = CollectTick | CleanupTick

fun serveTick ::
  "world \<Rightarrow> KubernetesService option \<Rightarrow> MetricsStore \<times> nat \<Rightarrow> tick \<Rightarrow> MetricsStore \<times> nat" where
  "serveTick w k8s (s, t) CollectTick = collectMetrics w k8s s t"
| "serveTick w k8s (s, t) CleanupTick =
     (let (err, s', t') = CleanupOldSnapshots w s (24 * Hour) t in (s', t'))"

definition startMetricsCollector ::
  "world \<Rightarrow> KubernetesService option \<Rightarrow> MetricsStore \<Rightarrow> nat \<Rightarrow> tick list \<Rightarrow> MetricsStore \<times> nat" where
  "startMetricsCollector w k8s s t ticks = foldl (serveTick w k8s) (s, t) ticks"


definition ErrServerClosed :: error where
  "ErrServerClosed = Err ''http: Server closed''"



section \<open>Health classification (internal/handlers: determineClusterStatus)\<close>

text \<open>
  \<^verbatim>\<open>
  func determineClusterStatus(cpuUsage, memUsage float64, pending, failed int) string {
      if cpuUsage > 95 || memUsage > 95 || failed > 0 { return "Critical" }
      if cpuUsage > 80 || memUsage > 80 || pending > 5 { return "Warning" }
      return "Healthy"
  }
  \<close>
\<close>

definition determineClusterStatus :: "float64 \<Rightarrow> float64 \<Rightarrow> int \<Rightarrow> int \<Rightarrow> string" where
  "determineClusterStatus cpuUsage memUsage pending failed =
     (if f64_gt cpuUsage 95 \<or> f64_gt memUsage 95 \<or> failed > 0 then ''Critical''
      else if f64_gt cpuUsage 80 \<or> f64_gt memUsage 80 \<or> pending > 5 then ''Warning''
      else ''Healthy'')"

section \<open>Sample inputs\<close>

text \<open>
  Concrete inputs on which the theorems below are instantiated. \<open>quietWorld\<close> is a
  world with an empty configuration file, no reachable backend, a clock that advances
  one second per external step, local time equal to UTC, a database that executes every
  statement, templates that load and a port on which the server can listen.
\<close>

definition emptyStore :: MetricsStore where
  "emptyStore = \<lparr>snapshots = [], alerts = [], snapshotSeq = 0, alertSeq = 0\<rparr>"

definition quietWorld :: world where
  "quietWorld =
     \<lparr>clock = (\<lambda>t. 1000000000 * int t),
      getenv = (\<lambda>k. []),
      userHomeDir = ''/root'',
      filepathJoin = (\<lambda>parts. concat (map (\<lambda>p. CHR ''/'' # p) parts)),
      filepathDir = (\<lambda>p. ''data''),
      mkdirAll = (\<lambda>p. None),
      readFile = (\<lambda>p. Inr []),
      yamlUnmarshal = (\<lambda>d. Inr []),
      clientConfig = (\<lambda>k c. Inr (RestConfig k c)),
      newForConfig = (\<lambda>c. Inr (Clientset c)),
      listNodes = (\<lambda>t c. Inl (Err ''connection refused'')),
      listPods = (\<lambda>t c ns. Inl (Err ''connection refused'')),
      httpGet = (\<lambda>t u q. DoError (Err ''connection refused'')),
      jsonUnmarshal = (\<lambda>b. Inl (Err ''unexpected end of JSON input'')),
      sscanF = (\<lambda>s. if s = ''42.5'' then Inr (Fin 42.5) else Inl (Err ''expected number'')),
      sprintF1 = (\<lambda>x. ''?''),
      dbOpen = (\<lambda>p. Inr emptyStore),
      dbMigrate = (\<lambda>p. None),
      dbExec = (\<lambda>t. None),
      zoneOffset = (\<lambda>i. 0),
      parseGlob = (\<lambda>p. None),
      listenAndServe = (\<lambda>a. Some ErrServerClosed)\<rparr>"

definition samplePod :: "string \<Rightarrow> Pod" where
  "samplePod phase =
     \<lparr>pod_Name = ''p'', pod_Namespace = ''default'', pod_Status = phase, pod_Restarts = 0,
      pod_Age = ''1h'', pod_Node = ''n1'', pod_CPUUsage = Fin 0, pod_MemUsage = Fin 0\<rparr>"

definition sampleNode :: "(string \<times> string) list \<Rightarrow> K8sNode" where
  "sampleNode labels =
     \<lparr>kn_Name = ''n1'', kn_Labels = labels, kn_CreationTimestamp = 0,
      kn_Conditions = [], kn_KubeletVersion = ''v1.29.0''\<rparr>"

definition sampleResult :: "json list \<Rightarrow> PrometheusResult" where
  "sampleResult v =
     \<lparr>pr_Status = ''success'', pr_ResultType = ''vector'',
      pr_Result = [\<lparr>ps_Metric = [], ps_Value = v\<rparr>]\<rparr>"

definition sampleSnapshot :: "nat \<Rightarrow> string \<Rightarrow> int \<Rightarrow> MetricSnapshot" where
  "sampleSnapshot i cluster ts =
     \<lparr>snap_ID = i, snap_Cluster = cluster, snap_CPUUsage = Fin 0, snap_MemoryUsage = Fin 0,
      snap_PodCount = 0, snap_NodeCount = 0, snap_Timestamp = ts\<rparr>"


definition sampleConfig :: "string \<Rightarrow> bool \<Rightarrow> ClusterConfig" where
  "sampleConfig name enabled =
     \<lparr>cfg_Name = name, cfg_DisplayName = name, cfg_Context = name,
      cfg_PrometheusURL = ''http://prometheus:9090'', cfg_Enabled = enabled\<rparr>"

definition sampleK8sPod :: "string \<Rightarrow> K8sPod" where
  "sampleK8sPod phase =
     \<lparr>kp_Name = ''p'', kp_Namespace = ''default'', kp_Phase = phase, kp_RestartCounts = [0],
      kp_CreationTimestamp = 0, kp_NodeName = ''n1''\<rparr>"

text \<open>
  Three configured clusters: \<open>a\<close> is enabled but has no client, \<open>b\<close> is disabled,
  \<open>c\<close> is enabled and has one. In \<open>busyWorld\<close> a client lists two nodes and one
  running pod.
\<close>

definition threeClusters :: KubernetesService where
  "threeClusters =
     \<lparr>ks_clients = [''c'' \<mapsto> Clientset (RestConfig ''/root/.kube/config'' ''c'')],
      ks_configs = [sampleConfig ''a'' True, sampleConfig ''b'' False, sampleConfig ''c'' True],
      ks_configPath = ''k8s-configs/clusters.yaml''\<rparr>"

definition busyWorld :: world where
  "busyWorld =
     quietWorld\<lparr>listNodes := (\<lambda>t c. Inr [sampleNode [], sampleNode []]),
                 listPods := (\<lambda>t c ns. Inr [sampleK8sPod ''Running''])\<rparr>"





text \<open>
  A world whose local time is that of New York on 3 and 4 November 2024. Until
  06:00 UTC on the 3rd local time is four hours behind UTC, from then on five. The
  clock reads 06:05 UTC on the 3rd at step 0, 06:40 UTC on the 3rd at step 1 and
  05:40 UTC on the 4th from step 2 on. \<open>fallBackStore\<close> is the empty store after one
  snapshot of cluster \<open>c1\<close> has been saved at step 0.
\<close>

definition fallBackWorld :: world where
  "fallBackWorld =
     quietWorld\<lparr>clock := (\<lambda>t. if t = 0 then 1730613900000000000
                              else if t = 1 then 1730616000000000000
                              else 1730698800000000000),
                 zoneOffset := (\<lambda>i. if i < 1730613600000000000 then - 14400 else - 18000)\<rparr>"

definition fallBackStore :: MetricsStore where
  "fallBackStore =
     fst (snd (snd (SaveSnapshot fallBackWorld emptyStore (sampleSnapshot 0 ''c1'' zeroTime) 0)))"

text \<open>
  A store with four snapshots of cluster \<open>c1\<close>, of 9 s, 5 s, 8 s and 8.5 s, and one
  of cluster \<open>c2\<close>, of 9.5 s.
\<close>

definition utcStore :: MetricsStore where
  "utcStore =
     emptyStore\<lparr>snapshots := [sampleSnapshot 1 ''c1'' 9000000000, sampleSnapshot 2 ''c2'' 9500000000,
                                sampleSnapshot 3 ''c1'' 5000000000, sampleSnapshot 4 ''c1'' 8000000000,
                                sampleSnapshot 5 ''c1'' 8500000000]\<rparr>"
section \<open>Properties of the health classification\<close>

text \<open>
  C1. The health classification is a total function of (cpuPct, memPct, pendingPods,
  failedPods) with a fixed priority: the result is Critical exactly when cpuPct > 95 or
  memPct > 95 or failedPods > 0; it is Warning exactly when none of these holds and
  cpuPct > 80 or memPct > 80 or pendingPods > 5; it is Healthy exactly when neither
  test holds; there is no fourth result. The five sample classifications of the
  specification are included.
\<close>

theorem determineClusterStatus_priority:
  "(determineClusterStatus cpu mem pending failed = ''Critical'') =
      (f64_gt cpu 95 \<or> f64_gt mem 95 \<or> failed > 0)
   \<and> (determineClusterStatus cpu mem pending failed = ''Warning'') =
      ((\<not> f64_gt cpu 95 \<and> \<not> f64_gt mem 95 \<and> failed \<le> 0)
        \<and> (f64_gt cpu 80 \<or> f64_gt mem 80 \<or> pending > 5))
   \<and> (determineClusterStatus cpu mem pending failed = ''Healthy'') =
      ((\<not> f64_gt cpu 95 \<and> \<not> f64_gt mem 95 \<and> failed \<le> 0)
        \<and> (\<not> f64_gt cpu 80 \<and> \<not> f64_gt mem 80 \<and> pending \<le> 5))
   \<and> determineClusterStatus cpu mem pending failed \<in> {''Critical'', ''Warning'', ''Healthy''}
   \<and> determineClusterStatus (Fin 96) (Fin 0) 0 0 = ''Critical''
   \<and> determineClusterStatus (Fin 85) (Fin 0) 0 0 = ''Warning''
   \<and> determineClusterStatus (Fin 50) (Fin 50) 0 0 = ''Healthy''
   \<and> determineClusterStatus (Fin 10) (Fin 10) 0 1 = ''Critical''
   \<and> determineClusterStatus (Fin 10) (Fin 10) 6 0 = ''Warning''"
  by (simp add: determineClusterStatus_def)

section \<open>Properties of the pod summary\<close>

lemma foldl_countPod:
  "foldl countPod (r, p, f, n) pods =
     (r + int (length (filter (\<lambda>x. pod_Status x = ''Running'') pods)),
      p + int (length (filter (\<lambda>x. pod_Status x = ''Pending'') pods)),
      f + int (length (filter (\<lambda>x. pod_Status x = ''Failed'') pods)),
      n + int (length pods))"
  by (induction pods arbitrary: r p f n) auto

lemma phase_partition:
  "length (filter (\<lambda>x. pod_Status x = ''Running'') pods)
   + length (filter (\<lambda>x. pod_Status x = ''Pending'') pods)
   + length (filter (\<lambda>x. pod_Status x = ''Failed'') pods)
   + length (filter (\<lambda>x. pod_Status x \<notin> {''Running'', ''Pending'', ''Failed''}) pods)
   = length pods"
  by (induction pods) auto

lemma no_others_iff:
  "(length (filter P pods) = 0) = (\<forall>x \<in> set pods. \<not> P x)"
  by (simp add: filter_empty_conv)

text \<open>
  C10. For every list of pods, the counting pass of the pod summary returns the number
  of Running, of Pending and of Failed pods and, as the total, the number of all pods:
  a pod in any other phase (Succeeded, Unknown) is counted in the total only. So
  running + pending + failed \<le> total, with equality exactly when every pod's phase is
  Running, Pending or Failed. \<open>GetPodSummary\<close> returns these counts for the pods that
  \<open>GetPods\<close> lists, and the listing's error otherwise.
\<close>

theorem GetPodSummary_counts:
  assumes "countPods pods = (running, pending, failed, total')"
  shows "running = int (length (filter (\<lambda>x. pod_Status x = ''Running'') pods))
       \<and> pending = int (length (filter (\<lambda>x. pod_Status x = ''Pending'') pods))
       \<and> failed = int (length (filter (\<lambda>x. pod_Status x = ''Failed'') pods))
       \<and> total' = int (length pods)
       \<and> running + pending + failed \<le> total'
       \<and> (running + pending + failed = total') =
           (\<forall>x \<in> set pods. pod_Status x \<in> {''Running'', ''Pending'', ''Failed''})
       \<and> fst (GetPodSummary w s clusterName t) =
           (case fst (GetPods w s clusterName [] t) of
              Inl err \<Rightarrow> Inl err
            | Inr ps \<Rightarrow> Inr (countPods ps))"
proof -
  let ?o = "length (filter (\<lambda>x. pod_Status x \<notin> {''Running'', ''Pending'', ''Failed''}) pods)"
  have c: "running = int (length (filter (\<lambda>x. pod_Status x = ''Running'') pods))"
     "pending = int (length (filter (\<lambda>x. pod_Status x = ''Pending'') pods))"
     "failed = int (length (filter (\<lambda>x. pod_Status x = ''Failed'') pods))"
     "total' = int (length pods)"
    using assms by (simp_all add: countPods_def foldl_countPod)
  have sum: "running + pending + failed + int ?o = total'"
    unfolding c using phase_partition[of pods] by linarith
  have "(running + pending + failed = total') = (?o = 0)" using sum by linarith
  also have "\<dots> = (\<forall>x \<in> set pods. pod_Status x \<in> {''Running'', ''Pending'', ''Failed''})"
    by (simp only: no_others_iff) simp
  finally have eq: "(running + pending + failed = total') =
           (\<forall>x \<in> set pods. pod_Status x \<in> {''Running'', ''Pending'', ''Failed''})" .
  have le: "running + pending + failed \<le> total'" using sum by linarith
  have g: "fst (GetPodSummary w s clusterName t) =
           (case fst (GetPods w s clusterName [] t) of
              Inl err \<Rightarrow> Inl err
            | Inr ps \<Rightarrow> Inr (countPods ps))"
    by (simp add: GetPodSummary_def split: prod.splits sum.splits)
  show ?thesis using c(1) c(2) c(3) c(4) le eq g by (intro conjI)
qed

text \<open>
  The pods of the specification's example, (Running, Running, Pending, Failed, Running),
  give (3, 1, 1, 5); with a Succeeded and an Unknown pod the sum stays below the total.
\<close>

theorem GetPodSummary_counts_witness:
  "countPods (map samplePod [''Running'', ''Running'', ''Pending'', ''Failed'', ''Running'']) = (3, 1, 1, 5)
   \<and> (3::int) + 1 + 1 \<le> 5
   \<and> countPods (map samplePod [''Running'', ''Succeeded'', ''Unknown'']) = (1, 0, 0, 3)
   \<and> ((1::int) + 0 + 0 = 3) =
       (\<forall>x \<in> set (map samplePod [''Running'', ''Succeeded'', ''Unknown'']).
           pod_Status x \<in> {''Running'', ''Pending'', ''Failed''})"
proof -
  have a: "countPods (map samplePod [''Running'', ''Running'', ''Pending'', ''Failed'', ''Running'']) = (3, 1, 1, 5)"
    by (simp add: countPods_def samplePod_def)
  have b: "countPods (map samplePod [''Running'', ''Succeeded'', ''Unknown'']) = (1, 0, 0, 3)"
    by (simp add: countPods_def samplePod_def)
  have c: "(3::int) + 1 + 1 \<le> 5"
    using GetPodSummary_counts[OF a, of quietWorld
            "\<lparr>ks_clients = Map.empty, ks_configs = [], ks_configPath = []\<rparr>" "[]" 0]
    by (elim conjE)
  have d: "((1::int) + 0 + 0 = 3) =
       (\<forall>x \<in> set (map samplePod [''Running'', ''Succeeded'', ''Unknown'']).
           pod_Status x \<in> {''Running'', ''Pending'', ''Failed''})"
    using GetPodSummary_counts[OF b, of quietWorld
            "\<lparr>ks_clients = Map.empty, ks_configs = [], ks_configPath = []\<rparr>" "[]" 0]
    by (elim conjE)
  show ?thesis using a b c d by (intro conjI)
qed

section \<open>Properties of the scalar extraction\<close>

text \<open>
  C5. Scalar extraction from a query result: an empty result set gives 0 and no error;
  when the first result's value array has fewer than two elements, or its second element
  is not a string, or \<open>Sscanf\<close> cannot read a number from that string, the extraction
  fails with the matching parse error; when the second element is a string that
  \<open>Sscanf\<close> reads as \<open>v\<close>, the extraction returns \<open>v\<close>.
\<close>

theorem extractFirstValue_cases:
  "(pr_Result result = [] \<longrightarrow> extractFirstValue w result = Inr (Fin 0))
   \<and> (\<forall>first rest. pr_Result result = first # rest \<longrightarrow>
         (length (ps_Value first) < 2 \<longrightarrow>
            extractFirstValue w result = Inl (Err ''unexpected result format''))
       \<and> (2 \<le> length (ps_Value first) \<and> (\<forall>str. ps_Value first ! 1 \<noteq> JString str) \<longrightarrow>
            extractFirstValue w result = Inl (Err ''unexpected value type''))
       \<and> (\<forall>str err. 2 \<le> length (ps_Value first) \<and> ps_Value first ! 1 = JString str
              \<and> sscanF w str = Inl err \<longrightarrow>
            extractFirstValue w result = Inl (Wrap ''failed to parse value'' err))
       \<and> (\<forall>str v. 2 \<le> length (ps_Value first) \<and> ps_Value first ! 1 = JString str
              \<and> sscanF w str = Inr v \<longrightarrow>
            extractFirstValue w result = Inr v))"
  by (auto simp: extractFirstValue_def split: list.splits json.splits sum.splits)

text \<open>
  In a world whose \<open>Sscanf\<close> reads \<open>42.5\<close> from "42.5" and nothing from "abc": the
  value pair [epoch, "42.5"] gives 42.5, a one-element array, a numeric second element
  and an unreadable string fail, and an empty result set gives 0.
\<close>

theorem extractFirstValue_cases_witness:
  "extractFirstValue quietWorld (sampleResult [JNumber (Fin 1234567890), JString ''42.5''])
        = Inr (Fin 42.5)
   \<and> extractFirstValue quietWorld (sampleResult [JNumber (Fin 1234567890)])
        = Inl (Err ''unexpected result format'')
   \<and> extractFirstValue quietWorld (sampleResult [JNumber (Fin 1234567890), JNumber (Fin 42.5)])
        = Inl (Err ''unexpected value type'')
   \<and> extractFirstValue quietWorld (sampleResult [JNumber (Fin 1234567890), JString ''abc''])
        = Inl (Wrap ''failed to parse value'' (Err ''expected number''))
   \<and> extractFirstValue quietWorld ((sampleResult [])\<lparr>pr_Result := []\<rparr>) = Inr (Fin 0)"
  using extractFirstValue_cases[of "sampleResult [JNumber (Fin 1234567890), JString ''42.5'']" quietWorld]
        extractFirstValue_cases[of "sampleResult [JNumber (Fin 1234567890)]" quietWorld]
        extractFirstValue_cases[of "sampleResult [JNumber (Fin 1234567890), JNumber (Fin 42.5)]" quietWorld]
        extractFirstValue_cases[of "sampleResult [JNumber (Fin 1234567890), JString ''abc'']" quietWorld]
        extractFirstValue_cases[of "(sampleResult [])\<lparr>pr_Result := []\<rparr>" quietWorld]
  by (simp add: sampleResult_def quietWorld_def)

section \<open>Properties of the node roles\<close>

lemma collectRoles_eq:
  "collectRoles labels acc =
     acc @ filter (\<lambda>r. r \<noteq> []) (map (\<lambda>l. TrimPrefix l rolePrefix)
             (filter (\<lambda>l. HasPrefix l rolePrefix) (map fst labels)))"
  by (induction labels acc rule: collectRoles.induct) (auto simp: Let_def)

lemma set_collectRoles:
  "set (collectRoles labels []) =
     (\<lambda>l. TrimPrefix l rolePrefix) `
       {l \<in> fst ` set labels. HasPrefix l rolePrefix \<and> TrimPrefix l rolePrefix \<noteq> []}"
  by (auto simp: collectRoles_eq)

text \<open>
  C6, as the code has it. Let \<open>S\<close> be the set of the non-empty suffixes of the node's
  label keys that start with the role prefix. The roles returned are exactly \<open>S\<close> when
  \<open>S\<close> is not empty, and exactly the single role "worker" when it is; the result is
  never empty; and when \<open>S\<close> is not empty, "worker" is among the roles only if a label
  names it.
\<close>

theorem getNodeRoles_roles:
  assumes "S = (\<lambda>l. TrimPrefix l rolePrefix) `
                 {l \<in> fst ` set (kn_Labels node). HasPrefix l rolePrefix \<and> TrimPrefix l rolePrefix \<noteq> []}"
  shows "set (getNodeRoles node) = (if S = {} then {''worker''} else S)
       \<and> getNodeRoles node \<noteq> []
       \<and> (if S = {} then getNodeRoles node = [''worker'']
           else ((''worker'' \<in> set (getNodeRoles node)) = (''worker'' \<in> S)))"
proof -
  have s: "set (collectRoles (kn_Labels node) []) = S"
    unfolding assms by (rule set_collectRoles)
  show ?thesis
  proof (cases "collectRoles (kn_Labels node) [] = []")
    case True
    then have "S = {}" using s by simp
    then show ?thesis using True by (simp add: getNodeRoles_def)
  next
    case False
    then have "S \<noteq> {}" using s by auto
    then show ?thesis using False s by (simp add: getNodeRoles_def)
  qed
qed

text \<open>
  A node labelled as control plane has exactly the role "control-plane"; a node with no
  role label has exactly the role "worker".
\<close>

theorem getNodeRoles_roles_witness:
  "set (getNodeRoles (sampleNode [(''node-role.kubernetes.io/control-plane'', []), (''kubernetes.io/os'', ''linux'')]))
      = {''control-plane''}
   \<and> getNodeRoles (sampleNode [(''kubernetes.io/os'', ''linux'')]) = [''worker'']"
proof -
  have a: "{''control-plane''} = (\<lambda>l. TrimPrefix l rolePrefix) `
      {l \<in> fst ` set (kn_Labels (sampleNode [(''node-role.kubernetes.io/control-plane'', []), (''kubernetes.io/os'', ''linux'')])).
         HasPrefix l rolePrefix \<and> TrimPrefix l rolePrefix \<noteq> []}"
    by (subst set_collectRoles[symmetric])
       (simp add: HasPrefix_def TrimPrefix_def rolePrefix_def sampleNode_def)
  have b: "{} = (\<lambda>l. TrimPrefix l rolePrefix) `
      {l \<in> fst ` set (kn_Labels (sampleNode [(''kubernetes.io/os'', ''linux'')])).
         HasPrefix l rolePrefix \<and> TrimPrefix l rolePrefix \<noteq> []}"
    by (subst set_collectRoles[symmetric])
       (simp add: HasPrefix_def TrimPrefix_def rolePrefix_def sampleNode_def)
  show ?thesis
    using getNodeRoles_roles[OF a] getNodeRoles_roles[OF b] by simp
qed

text \<open>
  C6, as the specification states it, fails on a node whose only role label is the bare
  prefix: the label matches the prefix and its suffix is the empty string, so the set of
  suffixes is not empty, yet the roles returned are ["worker"] and not that set.
\<close>

theorem getNodeRoles_suffix_counterexample:
  "HasPrefix ''node-role.kubernetes.io/'' rolePrefix
   \<and> TrimPrefix ''node-role.kubernetes.io/'' rolePrefix = []
   \<and> getNodeRoles (sampleNode [(''node-role.kubernetes.io/'', [])]) = [''worker'']
   \<and> set (getNodeRoles (sampleNode [(''node-role.kubernetes.io/'', [])])) \<noteq>
       (\<lambda>l. TrimPrefix l rolePrefix) `
         {l \<in> fst ` set (kn_Labels (sampleNode [(''node-role.kubernetes.io/'', [])])). HasPrefix l rolePrefix}"
  by (auto simp: HasPrefix_def TrimPrefix_def rolePrefix_def sampleNode_def getNodeRoles_def)

section \<open>Properties of the snapshot store\<close>

lemma count_list_insort_key:
  "count_list (insort_key f x xs) y = count_list (x # xs) y"
  by (induction xs) auto

lemma count_list_sort_key:
  "count_list (sort_key f xs) y = count_list xs y"
  by (induction xs) (auto simp: count_list_insort_key)

lemma count_list_filter:
  "count_list (filter P xs) y = (if P y then count_list xs y else 0)"
  by (induction xs) auto

lemma negDuration_int64:
  assumes "minDuration < d" and "d \<le> maxDuration"
  shows "negDuration d = - d"
proof -
  have "0 \<le> - d + 2 ^ 63" and "- d + 2 ^ 63 < (2 ^ 64 :: int)"
    using assms by (simp_all add: minDuration_def maxDuration_def)
  then have "(- d + 2 ^ 63) mod 2 ^ 64 = - d + 2 ^ 63" by (rule mod_pos_pos_trivial)
  then show ?thesis by (simp add: negDuration_def)
qed

lemma negDuration_least: "negDuration minDuration = minDuration"
  by (simp add: negDuration_def minDuration_def)

text \<open>
  What the two queries do, when the database executes the statement: the range query
  returns the cluster's rows whose text is greater than the text of the cutoff, each as
  often as it is stored, in ascending order of text; pruning keeps, in order, the rows
  whose text is not less than the text of the cutoff, and leaves the alerts alone.
\<close>

lemma GetSnapshots_by_text:
  assumes "dbExec w t = None"
  shows "\<exists>xs. GetSnapshots w s cluster since t = (Inr xs, Suc t)
            \<and> sorted (map (\<lambda>r. formatTimestamp w (snap_Timestamp r)) xs)
            \<and> set xs = {r \<in> set (snapshots s).
                          snap_Cluster r = cluster
                          \<and> formatTimestamp w (clock w t + negDuration since)
                              < formatTimestamp w (snap_Timestamp r)}
            \<and> (\<forall>r. count_list xs r =
                    (if snap_Cluster r = cluster
                        \<and> formatTimestamp w (clock w t + negDuration since)
                            < formatTimestamp w (snap_Timestamp r)
                     then count_list (snapshots s) r else 0))"
proof -
  let ?k = "\<lambda>r. formatTimestamp w (snap_Timestamp r)"
  let ?P = "\<lambda>r. snap_Cluster r = cluster
                \<and> formatTimestamp w (clock w t + negDuration since) < ?k r"
  let ?xs = "sort_key ?k (filter ?P (snapshots s))"
  have g: "GetSnapshots w s cluster since t = (Inr ?xs, Suc t)"
    using assms by (simp add: GetSnapshots_def Add_def)
  have g1: "sorted (map ?k ?xs)" by (rule sorted_sort_key)
  have g2: "set ?xs = {r \<in> set (snapshots s). ?P r}" by auto
  have g3: "\<forall>r. count_list ?xs r = (if ?P r then count_list (snapshots s) r else 0)"
    by (simp only: count_list_sort_key count_list_filter) simp
  show ?thesis using g g1 g2 g3 by blast
qed

lemma CleanupOldSnapshots_by_text:
  assumes "dbExec w t = None"
  shows "\<exists>s'. CleanupOldSnapshots w s olderThan t = (None, s', Suc t)
            \<and> snapshots s' =
                 filter (\<lambda>r. formatTimestamp w (clock w t + negDuration olderThan)
                               \<le> formatTimestamp w (snap_Timestamp r)) (snapshots s)
            \<and> alerts s' = alerts s"
proof -
  have not_less:
    "(\<lambda>r. \<not> formatTimestamp w (snap_Timestamp r) < formatTimestamp w (clock w t + negDuration olderThan))
     = (\<lambda>r. formatTimestamp w (clock w t + negDuration olderThan) \<le> formatTimestamp w (snap_Timestamp r))"
    by (auto simp: fun_eq_iff)
  show ?thesis
    using assms by (simp add: CleanupOldSnapshots_def Add_def not_less)
qed

text \<open>
  When the order of the texts is the order of the instants, on the cutoff and the
  timestamps of the stored rows, and the duration is not the least one, the two queries
  select by instant: the range query returns the cluster's rows strictly later than now
  minus the duration, in ascending order of timestamp, and pruning deletes exactly the
  rows strictly older than now minus the window.
\<close>

lemma GetSnapshots_when_texts_agree:
  assumes ex: "dbExec w t = None"
    and range: "minDuration < since" "since \<le> maxDuration"
    and agree: "\<forall>a \<in> insert (clock w t - since) (snap_Timestamp ` set (snapshots s)).
                \<forall>b \<in> insert (clock w t - since) (snap_Timestamp ` set (snapshots s)).
                  (formatTimestamp w a < formatTimestamp w b) = (a < b)"
  shows "\<exists>xs. GetSnapshots w s cluster since t = (Inr xs, Suc t)
            \<and> sorted (map snap_Timestamp xs)
            \<and> set xs = {r \<in> set (snapshots s).
                          snap_Cluster r = cluster \<and> clock w t - since < snap_Timestamp r}
            \<and> (\<forall>r. count_list xs r =
                    (if r \<in> set (snapshots s) \<and> snap_Cluster r = cluster
                        \<and> clock w t - since < snap_Timestamp r
                     then count_list (snapshots s) r else 0))"
proof -
  have n: "clock w t + negDuration since = clock w t - since"
    using negDuration_int64[OF range] by simp
  obtain xs where g: "GetSnapshots w s cluster since t = (Inr xs, Suc t)"
    and g1: "sorted (map (\<lambda>r. formatTimestamp w (snap_Timestamp r)) xs)"
    and g2: "set xs = {r \<in> set (snapshots s).
                          snap_Cluster r = cluster
                          \<and> formatTimestamp w (clock w t - since) < formatTimestamp w (snap_Timestamp r)}"
    and g3: "\<forall>r. count_list xs r =
                    (if snap_Cluster r = cluster
                        \<and> formatTimestamp w (clock w t - since) < formatTimestamp w (snap_Timestamp r)
                     then count_list (snapshots s) r else 0)"
    using GetSnapshots_by_text[OF ex, of s cluster since] unfolding n by blast
  have later: "(formatTimestamp w (clock w t - since) < formatTimestamp w (snap_Timestamp r))
               = (clock w t - since < snap_Timestamp r)" if "r \<in> set (snapshots s)" for r
    using agree that by simp
  have h2: "set xs = {r \<in> set (snapshots s).
                          snap_Cluster r = cluster \<and> clock w t - since < snap_Timestamp r}"
    unfolding g2 using later by blast
  have h1: "sorted (map snap_Timestamp xs)"
  proof -
    have "sorted_wrt (\<lambda>x y. formatTimestamp w (snap_Timestamp x) \<le> formatTimestamp w (snap_Timestamp y)) xs"
      using g1 by (simp add: sorted_map)
    then have "sorted_wrt (\<lambda>x y. snap_Timestamp x \<le> snap_Timestamp y) xs"
    proof (rule sorted_wrt_mono_rel[rotated])
      fix x y
      assume x: "x \<in> set xs" and y: "y \<in> set xs"
        and le: "formatTimestamp w (snap_Timestamp x) \<le> formatTimestamp w (snap_Timestamp y)"
      have "x \<in> set (snapshots s)" and "y \<in> set (snapshots s)" using x y g2 by auto
      then have "(formatTimestamp w (snap_Timestamp y) < formatTimestamp w (snap_Timestamp x))
                 = (snap_Timestamp y < snap_Timestamp x)"
        using agree by simp
      then show "snap_Timestamp x \<le> snap_Timestamp y" using le by auto
    qed
    then show ?thesis by (simp add: sorted_map)
  qed
  have h3: "\<forall>r. count_list xs r =
                    (if r \<in> set (snapshots s) \<and> snap_Cluster r = cluster
                        \<and> clock w t - since < snap_Timestamp r
                     then count_list (snapshots s) r else 0)"
  proof
    fix r
    show "count_list xs r =
            (if r \<in> set (snapshots s) \<and> snap_Cluster r = cluster
                \<and> clock w t - since < snap_Timestamp r
             then count_list (snapshots s) r else 0)"
    proof (cases "r \<in> set (snapshots s)")
      case True
      then show ?thesis using g3 later[OF True] by simp
    next
      case False
      then have "count_list (snapshots s) r = 0" by (simp add: count_list_0_iff)
      then show ?thesis using g3 by simp
    qed
  qed
  show ?thesis using g h1 h2 h3 by blast
qed

lemma CleanupOldSnapshots_when_texts_agree:
  assumes ex: "dbExec w t = None"
    and range: "minDuration < olderThan" "olderThan \<le> maxDuration"
    and agree: "\<forall>a \<in> insert (clock w t - olderThan) (snap_Timestamp ` set (snapshots s)).
                \<forall>b \<in> insert (clock w t - olderThan) (snap_Timestamp ` set (snapshots s)).
                  (formatTimestamp w a < formatTimestamp w b) = (a < b)"
  shows "\<exists>s'. CleanupOldSnapshots w s olderThan t = (None, s', Suc t)
            \<and> snapshots s' = filter (\<lambda>r. clock w t - olderThan \<le> snap_Timestamp r) (snapshots s)
            \<and> set (snapshots s) - set (snapshots s') =
                 {r \<in> set (snapshots s). snap_Timestamp r < clock w t - olderThan}
            \<and> alerts s' = alerts s"
proof -
  have n: "clock w t + negDuration olderThan = clock w t - olderThan"
    using negDuration_int64[OF range] by simp
  obtain s' where c: "CleanupOldSnapshots w s olderThan t = (None, s', Suc t)"
    and c1: "snapshots s' =
               filter (\<lambda>r. formatTimestamp w (clock w t - olderThan)
                             \<le> formatTimestamp w (snap_Timestamp r)) (snapshots s)"
    and c2: "alerts s' = alerts s"
    using CleanupOldSnapshots_by_text[OF ex, of s olderThan] unfolding n by blast
  have kept: "(formatTimestamp w (clock w t - olderThan) \<le> formatTimestamp w (snap_Timestamp r))
              = (clock w t - olderThan \<le> snap_Timestamp r)" if "r \<in> set (snapshots s)" for r
  proof -
    have "(formatTimestamp w (snap_Timestamp r) < formatTimestamp w (clock w t - olderThan))
          = (snap_Timestamp r < clock w t - olderThan)"
      using agree that by simp
    then show ?thesis by auto
  qed
  have d1: "snapshots s' = filter (\<lambda>r. clock w t - olderThan \<le> snap_Timestamp r) (snapshots s)"
    unfolding c1 by (rule filter_cong) (simp_all add: kept)
  have d2: "set (snapshots s) - set (snapshots s') =
              {r \<in> set (snapshots s). snap_Timestamp r < clock w t - olderThan}"
    unfolding d1 by auto
  show ?thesis using c d1 d2 c2 by blast
qed

text \<open>The texts of the instants of the samples.\<close>

lemma replicate_numeral: "replicate (numeral k) c = c # replicate (pred_numeral k) c"
  by (simp add: numeral_eq_Suc)

lemmas formatTimestamp_unfold =
  formatTimestamp_def formatLocal_def Year_def Month_def Day_def monthOfYear_def dayOfYear_def
  yearOfEra_def dayOfEra_def appendInt_def formatNano_def formatZone_def replicate_numeral

lemma text_of_0540:
  "formatTimestamp fallBackWorld 1730612400000000000 = ''2024-11-03 01:40:00-04:00''"
  by (simp add: formatTimestamp_unfold fallBackWorld_def quietWorld_def)

lemma text_of_0605:
  "formatTimestamp fallBackWorld 1730613900000000000 = ''2024-11-03 01:05:00-05:00''"
  by (simp add: formatTimestamp_unfold fallBackWorld_def quietWorld_def)

lemma text_of_least:
  "formatTimestamp quietWorld (- 9223372026854775808) = ''1677-09-21 00:12:53.145224192+00:00''"
  by (simp add: formatTimestamp_unfold quietWorld_def)

lemma text_of_9s:
  "formatTimestamp quietWorld 9000000000 = ''1970-01-01 00:00:09+00:00''"
  by (simp add: formatTimestamp_unfold quietWorld_def)

lemma fallBackStore_rows:
  "fallBackStore =
     emptyStore\<lparr>snapshots := [sampleSnapshot 1 ''c1'' 1730613900000000000], snapshotSeq := 1\<rparr>"
  by (simp add: fallBackStore_def SaveSnapshot_def createSnapshot_def fallBackWorld_def
        quietWorld_def emptyStore_def sampleSnapshot_def Let_def)

text \<open>
  C7 fails on the code where the offset of local time changes. In New York on
  3 November 2024 local time falls back at 06:00 UTC. A snapshot of cluster \<open>c1\<close> is
  saved at 06:05 UTC; its row holds the text \<open>2024-11-03 01:05:00-05:00\<close>.

  At 06:40 UTC the range query for \<open>c1\<close> with a duration of one hour has the cutoff
  05:40 UTC, bound as \<open>2024-11-03 01:40:00-04:00\<close>. The snapshot is 25 minutes newer
  than the cutoff, and the query returns nothing.

  At 05:40 UTC on the next day pruning with the window of 24 hours, as the collector
  calls it, has the same cutoff. The snapshot is not older than the window, and pruning
  deletes it.

  And with the least duration, whose negation is itself, the cutoff of the range query
  lies 292 years in the past instead of in the future: at 10 s, in a world on UTC, no
  snapshot is newer than now minus that duration, and the query returns the snapshot
  of 9 s.
\<close>

theorem snapshot_queries_at_offset_change:
  "snapshots fallBackStore = [sampleSnapshot 1 ''c1'' 1730613900000000000]
   \<and> clock fallBackWorld 1 - Hour < 1730613900000000000
   \<and> GetSnapshots fallBackWorld fallBackStore ''c1'' Hour 1 = (Inr [], 2)
   \<and> \<not> 1730613900000000000 < clock fallBackWorld 2 - 24 * Hour
   \<and> CleanupOldSnapshots fallBackWorld fallBackStore (24 * Hour) 2
       = (None, fallBackStore\<lparr>snapshots := []\<rparr>, 3)
   \<and> \<not> clock quietWorld 10 - minDuration < 9000000000
   \<and> GetSnapshots quietWorld (emptyStore\<lparr>snapshots := [sampleSnapshot 1 ''c1'' 9000000000]\<rparr>)
         ''c1'' minDuration 10
       = (Inr [sampleSnapshot 1 ''c1'' 9000000000], 11)"
proof -
  have c1: "clock fallBackWorld 1 = 1730616000000000000"
    and c2: "clock fallBackWorld 2 = 1730698800000000000"
    and e1: "dbExec fallBackWorld 1 = None" and e2: "dbExec fallBackWorld 2 = None"
    by (simp_all add: fallBackWorld_def quietWorld_def)
  have n1: "negDuration Hour = - 3600000000000"
    and n2: "negDuration (24 * Hour) = - 86400000000000"
    by (simp_all add: negDuration_def Hour_def Minute_def Second_def)
  have ts: "snap_Timestamp (sampleSnapshot i ''c1'' ts) = ts"
    and cl: "snap_Cluster (sampleSnapshot i ''c1'' ts) = ''c1''" for i ts
    by (simp_all add: sampleSnapshot_def)
  have a: "snapshots fallBackStore = [sampleSnapshot 1 ''c1'' 1730613900000000000]"
    by (simp add: fallBackStore_rows)
  have b: "clock fallBackWorld 1 - Hour < 1730613900000000000"
    using c1 by (simp add: Hour_def Minute_def Second_def)
  have c: "GetSnapshots fallBackWorld fallBackStore ''c1'' Hour 1 = (Inr [], 2)"
    using c1 e1 by (simp add: GetSnapshots_def Add_def a n1 ts cl text_of_0540 text_of_0605)
  have d: "\<not> 1730613900000000000 < clock fallBackWorld 2 - 24 * Hour"
    by (simp add: c2 Hour_def Minute_def Second_def)
  have e: "CleanupOldSnapshots fallBackWorld fallBackStore (24 * Hour) 2
             = (None, fallBackStore\<lparr>snapshots := []\<rparr>, 3)"
    by (simp add: CleanupOldSnapshots_def Add_def a c2 e2 n2 ts text_of_0540 text_of_0605)
  have q: "clock quietWorld 10 = 10000000000" and eq: "dbExec quietWorld 10 = None"
    by (simp_all add: quietWorld_def)
  have f: "\<not> clock quietWorld 10 - minDuration < 9000000000"
    by (simp add: q minDuration_def)
  have g: "GetSnapshots quietWorld (emptyStore\<lparr>snapshots := [sampleSnapshot 1 ''c1'' 9000000000]\<rparr>)
             ''c1'' minDuration 10
           = (Inr [sampleSnapshot 1 ''c1'' 9000000000], 11)"
    using negDuration_least
    by (simp add: GetSnapshots_def Add_def q eq ts cl minDuration_def text_of_least text_of_9s)
  show ?thesis using a b c d e f g by (intro conjI)
qed

text \<open>
  Where the offset does not change, the queries select by instant. In a world on UTC
  the clock reads 10 s at step 10. With a window of 2 s the boundary is 8 s: the texts
  of the boundary and of the stored timestamps order as the instants do, the range
  query for \<open>c1\<close> returns the snapshots of 8.5 s and 9 s, in that order, and not the
  one of exactly 8 s; pruning deletes the snapshot of 5 s and keeps the one of exactly
  8 s.
\<close>

lemma texts_on_utc:
  "formatTimestamp quietWorld 9000000000 = ''1970-01-01 00:00:09+00:00''"
  "formatTimestamp quietWorld 9500000000 = ''1970-01-01 00:00:09.5+00:00''"
  "formatTimestamp quietWorld 5000000000 = ''1970-01-01 00:00:05+00:00''"
  "formatTimestamp quietWorld 8000000000 = ''1970-01-01 00:00:08+00:00''"
  "formatTimestamp quietWorld 8500000000 = ''1970-01-01 00:00:08.5+00:00''"
  by (simp_all add: formatTimestamp_unfold quietWorld_def)

lemma texts_agree_on_utc:
  "\<forall>a \<in> insert (clock quietWorld 10 - 2000000000) (snap_Timestamp ` set (snapshots utcStore)).
   \<forall>b \<in> insert (clock quietWorld 10 - 2000000000) (snap_Timestamp ` set (snapshots utcStore)).
     (formatTimestamp quietWorld a < formatTimestamp quietWorld b) = (a < b)"
proof -
  have q: "clock quietWorld 10 = 10000000000" by (simp add: quietWorld_def)
  have s: "insert (clock quietWorld 10 - 2000000000) (snap_Timestamp ` set (snapshots utcStore))
           = {8000000000, 9000000000, 9500000000, 5000000000, 8500000000}"
    by (auto simp: q utcStore_def emptyStore_def sampleSnapshot_def)
  show ?thesis unfolding s by (simp add: texts_on_utc)
qed

lemma snapshot_queries_on_utc:
  "fst (GetSnapshots quietWorld utcStore ''c1'' 2000000000 10)
      = Inr [sampleSnapshot 5 ''c1'' 8500000000, sampleSnapshot 1 ''c1'' 9000000000]
   \<and> snapshots (fst (snd (CleanupOldSnapshots quietWorld utcStore 2000000000 10)))
      = [sampleSnapshot 1 ''c1'' 9000000000, sampleSnapshot 2 ''c2'' 9500000000,
         sampleSnapshot 4 ''c1'' 8000000000, sampleSnapshot 5 ''c1'' 8500000000]"
proof -
  have q: "clock quietWorld 10 = 10000000000" and eq: "dbExec quietWorld 10 = None"
    by (simp_all add: quietWorld_def)
  have n: "negDuration 2000000000 = - 2000000000" by (simp add: negDuration_def)
  show ?thesis
    by (simp add: GetSnapshots_def CleanupOldSnapshots_def Add_def q eq n texts_on_utc
          utcStore_def emptyStore_def sampleSnapshot_def)
qed

lemma snapshot_queries_on_utc_by_instant:
  "(\<exists>xs. GetSnapshots quietWorld utcStore ''c1'' 2000000000 10 = (Inr xs, 11)
       \<and> sorted (map snap_Timestamp xs)
       \<and> set xs = {sampleSnapshot 1 ''c1'' 9000000000, sampleSnapshot 5 ''c1'' 8500000000})
   \<and> (\<exists>s'. CleanupOldSnapshots quietWorld utcStore 2000000000 10 = (None, s', 11)
       \<and> set (snapshots utcStore) - set (snapshots s') = {sampleSnapshot 3 ''c1'' 5000000000})"
proof -
  have e: "dbExec quietWorld 10 = None" by (simp add: quietWorld_def)
  have r: "minDuration < 2000000000" "2000000000 \<le> maxDuration"
    by (simp_all add: minDuration_def maxDuration_def)
  have q: "clock quietWorld 10 = 10000000000" by (simp add: quietWorld_def)
  obtain xs where g: "GetSnapshots quietWorld utcStore ''c1'' 2000000000 10 = (Inr xs, Suc 10)"
    and o: "sorted (map snap_Timestamp xs)"
    and s: "set xs = {r \<in> set (snapshots utcStore).
                          snap_Cluster r = ''c1'' \<and> clock quietWorld 10 - 2000000000 < snap_Timestamp r}"
    using GetSnapshots_when_texts_agree[OF e r texts_agree_on_utc, of "''c1''"] by blast
  have s': "set xs = {sampleSnapshot 1 ''c1'' 9000000000, sampleSnapshot 5 ''c1'' 8500000000}"
    unfolding s by (auto simp: q utcStore_def emptyStore_def sampleSnapshot_def)
  obtain st where c: "CleanupOldSnapshots quietWorld utcStore 2000000000 10 = (None, st, Suc 10)"
    and d: "set (snapshots utcStore) - set (snapshots st) =
              {r \<in> set (snapshots utcStore). snap_Timestamp r < clock quietWorld 10 - 2000000000}"
    using CleanupOldSnapshots_when_texts_agree[OF e r texts_agree_on_utc] by blast
  have d': "set (snapshots utcStore) - set (snapshots st) = {sampleSnapshot 3 ''c1'' 5000000000}"
    unfolding d by (auto simp: q utcStore_def emptyStore_def sampleSnapshot_def)
  show ?thesis using g o s' c d' by auto
qed

section \<open>Properties of the alert log\<close>

















section \<open>Properties of the threshold check\<close>

lemma f64_gt_mono: "f64_gt x c \<Longrightarrow> d \<le> c \<Longrightarrow> f64_gt x d"
  by (cases x) simp_all

lemma showNat_hd: "showNat n \<noteq> [] \<and> hd (showNat n) \<in> set ''0123456789''"
proof (induction n rule: showNat.induct)
  case (1 n)
  show ?case
  proof (cases "n < 10")
    case True
    then have "''0123456789'' ! n \<in> set ''0123456789''" by (intro nth_mem) simp
    then show ?thesis using True by (subst showNat.simps, subst showNat.simps) simp
  next
    case False
    then show ?thesis using 1 by (subst showNat.simps, subst showNat.simps) simp
  qed
qed

lemma showInt_hd: "showInt i \<noteq> [] \<and> hd (showInt i) \<in> set ''-0123456789''"
  using showNat_hd[of "nat i"] showNat_hd[of "nat (- i)"] by (auto simp: showInt_def)

lemma HasSuffix_append: "HasSuffix (x @ y) y"
  by (simp add: HasSuffix_def)

lemma HasSuffix_last: "HasSuffix s x \<Longrightarrow> x \<noteq> [] \<Longrightarrow> last s = last x"
proof -
  assume h: "HasSuffix s x" and ne: "x \<noteq> []"
  then have d: "drop (length s - length x) s = x" and l: "length x \<le> length s"
    by (simp_all add: HasSuffix_def)
  have "length s - length x < length s" using l ne by (cases x) simp_all
  then have "last (drop (length s - length x) s) = last s" by (rule last_drop)
  then show ?thesis using d by simp
qed

lemma HasPrefix_hd: "HasPrefix s p \<Longrightarrow> p \<noteq> [] \<Longrightarrow> s \<noteq> [] \<and> hd s = hd p"
  by (cases s; cases p) (auto simp: HasPrefix_def)

lemma percent_message:
  assumes "m = p @ x @ ''%''"
  shows "\<not> HasSuffix m '' pod(s) in failed state''"
proof
  assume "HasSuffix m '' pod(s) in failed state''"
  then have "last m = last '' pod(s) in failed state''" by (rule HasSuffix_last) simp
  then show False using assms by simp
qed

lemma cpu_message:
  assumes "m = ''CPU usage is critically high at '' @ x @ ''%'' \<or> m = ''CPU usage is elevated at '' @ x @ ''%''"
  shows "HasPrefix m ''CPU usage is '' \<and> \<not> HasPrefix m ''Memory usage is ''
         \<and> \<not> HasSuffix m '' pod(s) in failed state''"
proof -
  have "\<not> HasSuffix m '' pod(s) in failed state''"
    using assms percent_message by blast
  moreover have "HasPrefix m ''CPU usage is '' \<and> \<not> HasPrefix m ''Memory usage is ''"
    using assms by (auto simp: HasPrefix_def)
  ultimately show ?thesis by blast
qed

lemma mem_message:
  assumes "m = ''Memory usage is critically high at '' @ x @ ''%'' \<or> m = ''Memory usage is elevated at '' @ x @ ''%''"
  shows "\<not> HasPrefix m ''CPU usage is '' \<and> HasPrefix m ''Memory usage is ''
         \<and> \<not> HasSuffix m '' pod(s) in failed state''"
proof -
  have "\<not> HasSuffix m '' pod(s) in failed state''"
    using assms percent_message by blast
  moreover have "\<not> HasPrefix m ''CPU usage is '' \<and> HasPrefix m ''Memory usage is ''"
    using assms by (auto simp: HasPrefix_def)
  ultimately show ?thesis by blast
qed

lemma pod_message:
  assumes "m = showInt n @ '' pod(s) in failed state''"
  shows "\<not> HasPrefix m ''CPU usage is '' \<and> \<not> HasPrefix m ''Memory usage is ''
         \<and> HasSuffix m '' pod(s) in failed state''"
proof -
  have hd: "hd m = hd (showInt n)" "hd (showInt n) \<in> set ''-0123456789''"
    using showInt_hd[of n] assms by simp_all
  have "\<not> HasPrefix m ''CPU usage is ''"
  proof
    assume "HasPrefix m ''CPU usage is ''"
    then have "hd m = hd ''CPU usage is ''" using HasPrefix_hd by blast
    then show False using hd by auto
  qed
  moreover have "\<not> HasPrefix m ''Memory usage is ''"
  proof
    assume "HasPrefix m ''Memory usage is ''"
    then have "hd m = hd ''Memory usage is ''" using HasPrefix_hd by blast
    then show False using hd by auto
  qed
  moreover have "HasSuffix m '' pod(s) in failed state''"
    unfolding assms by (rule HasSuffix_append)
  ultimately show ?thesis by blast
qed


lemma raise_stage:
  assumes "\<forall>n. dbExec w n = None"
  shows "\<exists>a'. raiseAlert w s (newAlert c sev msg) t
               = (s\<lparr>alerts := alerts s @ [a'], alertSeq := Suc (alertSeq s)\<rparr>, Suc t)
             \<and> alert_Message a' = msg \<and> alert_Severity a' = sev
             \<and> alert_Cluster a' = c \<and> \<not> alert_Resolved a'"
proof -
  let ?a = "(newAlert c sev msg)\<lparr>alert_ID := Suc (alertSeq s), alert_Timestamp := clock w t\<rparr>"
  have "raiseAlert w s (newAlert c sev msg) t
          = (s\<lparr>alerts := alerts s @ [?a], alertSeq := Suc (alertSeq s)\<rparr>, Suc t)"
    using assms by (simp add: raiseAlert_def SaveAlert_def createAlert_def newAlert_def Let_def)
  moreover have "alert_Message ?a = msg \<and> alert_Severity ?a = sev
             \<and> alert_Cluster ?a = c \<and> \<not> alert_Resolved ?a"
    by (simp add: newAlert_def)
  ultimately show ?thesis by blast
qed

lemma level_stage:
  assumes db: "\<forall>n. dbExec w n = None"
    and X: "X = (if f64_gt x 95 then raiseAlert w s (newAlert c ''Critical'' mc) t
                 else if f64_gt x 80 then raiseAlert w s (newAlert c ''Warning'' mw) t
                 else (s, t))"
  shows "\<exists>new. alerts (fst X) = alerts s @ new \<and> snapshots (fst X) = snapshots s
           \<and> length new = (if f64_gt x 80 then 1 else 0)
           \<and> (\<forall>a \<in> set new. alert_Message a = (if f64_gt x 95 then mc else mw)
                  \<and> alert_Severity a = (if f64_gt x 95 then ''Critical'' else ''Warning'')
                  \<and> alert_Cluster a = c \<and> \<not> alert_Resolved a)"
proof -
  consider (crit) "f64_gt x 95" | (warn) "\<not> f64_gt x 95" "f64_gt x 80" | (none) "\<not> f64_gt x 95" "\<not> f64_gt x 80"
    by blast
  then show ?thesis
  proof cases
    case crit
    then have g: "f64_gt x 80" by (rule f64_gt_mono) simp
    obtain a' where a: "raiseAlert w s (newAlert c ''Critical'' mc) t
               = (s\<lparr>alerts := alerts s @ [a'], alertSeq := Suc (alertSeq s)\<rparr>, Suc t)"
        "alert_Message a' = mc" "alert_Severity a' = ''Critical''" "alert_Cluster a' = c" "\<not> alert_Resolved a'"
      using raise_stage[OF db, of s c "''Critical''" mc t] by blast
    show ?thesis
      by (rule exI[of _ "[a']"]) (simp add: X crit g a)
  next
    case warn
    obtain a' where a: "raiseAlert w s (newAlert c ''Warning'' mw) t
               = (s\<lparr>alerts := alerts s @ [a'], alertSeq := Suc (alertSeq s)\<rparr>, Suc t)"
        "alert_Message a' = mw" "alert_Severity a' = ''Warning''" "alert_Cluster a' = c" "\<not> alert_Resolved a'"
      using raise_stage[OF db, of s c "''Warning''" mw t] by blast
    show ?thesis
      by (rule exI[of _ "[a']"]) (simp add: X warn a)
  next
    case none
    show ?thesis
      by (rule exI[of _ "[]"]) (simp add: X none)
  qed
qed

lemma pod_stage:
  assumes db: "\<forall>n. dbExec w n = None"
    and X: "X = (if 0 < failedPods then raiseAlert w s (newAlert c ''Warning'' mp) t else (s, t))"
  shows "\<exists>new. alerts (fst X) = alerts s @ new \<and> snapshots (fst X) = snapshots s
           \<and> length new = (if 0 < failedPods then 1 else 0)
           \<and> (\<forall>a \<in> set new. alert_Message a = mp \<and> alert_Severity a = ''Warning''
                  \<and> alert_Cluster a = c \<and> \<not> alert_Resolved a)"
proof (cases "0 < failedPods")
  case True
  obtain a' where a: "raiseAlert w s (newAlert c ''Warning'' mp) t
               = (s\<lparr>alerts := alerts s @ [a'], alertSeq := Suc (alertSeq s)\<rparr>, Suc t)"
        "alert_Message a' = mp" "alert_Severity a' = ''Warning''" "alert_Cluster a' = c" "\<not> alert_Resolved a'"
    using raise_stage[OF db, of s c "''Warning''" mp t] by blast
  show ?thesis
    by (rule exI[of _ "[a']"]) (simp add: X True a)
next
  case False
  show ?thesis
    by (rule exI[of _ "[]"]) (simp add: X False)
qed

lemma filter_all: "\<forall>a \<in> set xs. P a \<Longrightarrow> filter P xs = xs"
  by (induction xs) simp_all

lemma filter_none: "\<forall>a \<in> set xs. \<not> P a \<Longrightarrow> filter P xs = []"
  by (induction xs) simp_all


text \<open>
  C9. The kind of an alert is read from its message: a CPU alert starts with
  "CPU usage is ", a memory alert with "Memory usage is ", a failed-pod alert ends with
  " pod(s) in failed state". When the database executes its statements, one threshold
  check appends to the alert log, and changes nothing else of it: one CPU alert when the
  CPU value exceeds 80 and none otherwise, of severity Critical when the value exceeds
  95 and Warning otherwise; one memory alert by the same rule on the memory value; and
  one failed-pod alert when failedPods > 0 and none otherwise, always of severity
  Warning, although the health classification of the same values is Critical. Every
  alert appended is of one of the three kinds, names the cluster and is unresolved.
\<close>

theorem checkAndCreateAlerts_thresholds:
  assumes "\<forall>n. dbExec w n = None"
  shows "\<exists>new.
           alerts (fst (checkAndCreateAlerts w s cluster cpu mem failedPods t)) = alerts s @ new
         \<and> snapshots (fst (checkAndCreateAlerts w s cluster cpu mem failedPods t)) = snapshots s
         \<and> length (filter (\<lambda>a. HasPrefix (alert_Message a) ''CPU usage is '') new)
              = (if f64_gt cpu 80 then 1 else 0)
         \<and> length (filter (\<lambda>a. HasPrefix (alert_Message a) ''Memory usage is '') new)
              = (if f64_gt mem 80 then 1 else 0)
         \<and> length (filter (\<lambda>a. HasSuffix (alert_Message a) '' pod(s) in failed state'') new)
              = (if 0 < failedPods then 1 else 0)
         \<and> (\<forall>a \<in> set new.
               (HasPrefix (alert_Message a) ''CPU usage is '' \<longrightarrow>
                  alert_Severity a = (if f64_gt cpu 95 then ''Critical'' else ''Warning''))
             \<and> (HasPrefix (alert_Message a) ''Memory usage is '' \<longrightarrow>
                  alert_Severity a = (if f64_gt mem 95 then ''Critical'' else ''Warning''))
             \<and> (HasSuffix (alert_Message a) '' pod(s) in failed state'' \<longrightarrow>
                  alert_Severity a = ''Warning'')
             \<and> (HasPrefix (alert_Message a) ''CPU usage is ''
                  \<or> HasPrefix (alert_Message a) ''Memory usage is ''
                  \<or> HasSuffix (alert_Message a) '' pod(s) in failed state'')
             \<and> alert_Cluster a = cluster \<and> \<not> alert_Resolved a)
         \<and> (0 < failedPods \<longrightarrow> determineClusterStatus cpu mem pending failedPods = ''Critical'')"
proof -
  let ?isC = "\<lambda>a. HasPrefix (alert_Message a) ''CPU usage is ''"
  let ?isM = "\<lambda>a. HasPrefix (alert_Message a) ''Memory usage is ''"
  let ?isP = "\<lambda>a. HasSuffix (alert_Message a) '' pod(s) in failed state''"
  define cc where "cc = ''CPU usage is critically high at '' @ sprintF1 w cpu @ ''%''"
  define cw where "cw = ''CPU usage is elevated at '' @ sprintF1 w cpu @ ''%''"
  define mc where "mc = ''Memory usage is critically high at '' @ sprintF1 w mem @ ''%''"
  define mw where "mw = ''Memory usage is elevated at '' @ sprintF1 w mem @ ''%''"
  define mp where "mp = showInt failedPods @ '' pod(s) in failed state''"
  define X1 where "X1 = (if f64_gt cpu 95 then raiseAlert w s (newAlert cluster ''Critical'' cc) t
                 else if f64_gt cpu 80 then raiseAlert w s (newAlert cluster ''Warning'' cw) t
                 else (s, t))"
  define X2 where "X2 = (if f64_gt mem 95 then raiseAlert w (fst X1) (newAlert cluster ''Critical'' mc) (snd X1)
                 else if f64_gt mem 80 then raiseAlert w (fst X1) (newAlert cluster ''Warning'' mw) (snd X1)
                 else (fst X1, snd X1))"
  define X3 where "X3 = (if 0 < failedPods then raiseAlert w (fst X2) (newAlert cluster ''Warning'' mp) (snd X2)
                 else (fst X2, snd X2))"
  have run: "checkAndCreateAlerts w s cluster cpu mem failedPods t = X3"
    by (simp add: checkAndCreateAlerts_def X3_def X2_def X1_def cc_def cw_def mc_def mw_def mp_def
                  split_beta Let_def)
  obtain n1 where n1: "alerts (fst X1) = alerts s @ n1" "snapshots (fst X1) = snapshots s"
      "length n1 = (if f64_gt cpu 80 then 1 else 0)"
      "\<forall>a \<in> set n1. alert_Message a = (if f64_gt cpu 95 then cc else cw)
                  \<and> alert_Severity a = (if f64_gt cpu 95 then ''Critical'' else ''Warning'')
                  \<and> alert_Cluster a = cluster \<and> \<not> alert_Resolved a"
    using level_stage[OF assms X1_def] by blast
  obtain n2 where n2: "alerts (fst X2) = alerts (fst X1) @ n2" "snapshots (fst X2) = snapshots (fst X1)"
      "length n2 = (if f64_gt mem 80 then 1 else 0)"
      "\<forall>a \<in> set n2. alert_Message a = (if f64_gt mem 95 then mc else mw)
                  \<and> alert_Severity a = (if f64_gt mem 95 then ''Critical'' else ''Warning'')
                  \<and> alert_Cluster a = cluster \<and> \<not> alert_Resolved a"
    using level_stage[OF assms X2_def] by blast
  obtain n3 where n3: "alerts (fst X3) = alerts (fst X2) @ n3" "snapshots (fst X3) = snapshots (fst X2)"
      "length n3 = (if 0 < failedPods then 1 else 0)"
      "\<forall>a \<in> set n3. alert_Message a = mp \<and> alert_Severity a = ''Warning''
                  \<and> alert_Cluster a = cluster \<and> \<not> alert_Resolved a"
    using pod_stage[OF assms X3_def] by blast
  have k1: "\<forall>a \<in> set n1. ?isC a \<and> \<not> ?isM a \<and> \<not> ?isP a"
  proof
    fix a assume "a \<in> set n1"
    then have "alert_Message a = cc \<or> alert_Message a = cw" using n1(4) by (metis (full_types))
    then show "?isC a \<and> \<not> ?isM a \<and> \<not> ?isP a"
      unfolding cc_def cw_def by (rule cpu_message)
  qed
  have k2: "\<forall>a \<in> set n2. \<not> ?isC a \<and> ?isM a \<and> \<not> ?isP a"
  proof
    fix a assume "a \<in> set n2"
    then have "alert_Message a = mc \<or> alert_Message a = mw" using n2(4) by (metis (full_types))
    then show "\<not> ?isC a \<and> ?isM a \<and> \<not> ?isP a"
      unfolding mc_def mw_def by (rule mem_message)
  qed
  have k3: "\<forall>a \<in> set n3. \<not> ?isC a \<and> \<not> ?isM a \<and> ?isP a"
  proof
    fix a assume "a \<in> set n3"
    then have "alert_Message a = mp" using n3(4) by blast
    then show "\<not> ?isC a \<and> \<not> ?isM a \<and> ?isP a"
      unfolding mp_def by (rule pod_message)
  qed
  have fC: "filter ?isC (n1 @ n2 @ n3) = n1"
    using k1 k2 k3 by (simp add: filter_all filter_none)
  have fM: "filter ?isM (n1 @ n2 @ n3) = n2"
    using k1 k2 k3 by (simp add: filter_all filter_none)
  have fP: "filter ?isP (n1 @ n2 @ n3) = n3"
    using k1 k2 k3 by (simp add: filter_all filter_none)
  have g1: "alerts (fst (checkAndCreateAlerts w s cluster cpu mem failedPods t)) = alerts s @ (n1 @ n2 @ n3)"
    by (simp add: run n1(1) n2(1) n3(1))
  have g2: "snapshots (fst (checkAndCreateAlerts w s cluster cpu mem failedPods t)) = snapshots s"
    by (simp add: run n1(2) n2(2) n3(2))
  have g3: "length (filter ?isC (n1 @ n2 @ n3)) = (if f64_gt cpu 80 then 1 else 0)"
    by (simp only: fC n1(3))
  have g4: "length (filter ?isM (n1 @ n2 @ n3)) = (if f64_gt mem 80 then 1 else 0)"
    by (simp only: fM n2(3))
  have g5: "length (filter ?isP (n1 @ n2 @ n3)) = (if 0 < failedPods then 1 else 0)"
    by (simp only: fP n3(3))
  have g6: "\<forall>a \<in> set (n1 @ n2 @ n3).
               (?isC a \<longrightarrow> alert_Severity a = (if f64_gt cpu 95 then ''Critical'' else ''Warning''))
             \<and> (?isM a \<longrightarrow> alert_Severity a = (if f64_gt mem 95 then ''Critical'' else ''Warning''))
             \<and> (?isP a \<longrightarrow> alert_Severity a = ''Warning'')
             \<and> (?isC a \<or> ?isM a \<or> ?isP a)
             \<and> alert_Cluster a = cluster \<and> \<not> alert_Resolved a"
  proof
    fix a assume "a \<in> set (n1 @ n2 @ n3)"
    then consider "a \<in> set n1" | "a \<in> set n2" | "a \<in> set n3" by auto
    then show "(?isC a \<longrightarrow> alert_Severity a = (if f64_gt cpu 95 then ''Critical'' else ''Warning''))
             \<and> (?isM a \<longrightarrow> alert_Severity a = (if f64_gt mem 95 then ''Critical'' else ''Warning''))
             \<and> (?isP a \<longrightarrow> alert_Severity a = ''Warning'')
             \<and> (?isC a \<or> ?isM a \<or> ?isP a)
             \<and> alert_Cluster a = cluster \<and> \<not> alert_Resolved a"
    proof cases
      case 1 then show ?thesis using k1 n1(4) by blast
    next
      case 2 then show ?thesis using k2 n2(4) by blast
    next
      case 3 then show ?thesis using k3 n3(4) by blast
    qed
  qed
  have g7: "0 < failedPods \<longrightarrow> determineClusterStatus cpu mem pending failedPods = ''Critical''"
    by (simp add: determineClusterStatus_def)
  show ?thesis
    apply (rule exI[of _ "n1 @ n2 @ n3"])
    using g1 g2 g3 g4 g5 g6 g7 by (intro conjI)
qed


text \<open>
  CPU at 96, memory at 85 and two failed pods: a Critical CPU alert, a Warning memory
  alert and a Warning failed-pod alert, while the health tier is Critical.
\<close>

theorem checkAndCreateAlerts_thresholds_witness:
  "(\<forall>n. dbExec quietWorld n = None)
   \<and> map alert_Severity
         (alerts (fst (checkAndCreateAlerts quietWorld emptyStore ''c1'' (Fin 96) (Fin 85) 2 0)))
       = [''Critical'', ''Warning'', ''Warning'']
   \<and> map alert_Message
         (alerts (fst (checkAndCreateAlerts quietWorld emptyStore ''c1'' (Fin 96) (Fin 85) 2 0)))
       = [''CPU usage is critically high at ?%'', ''Memory usage is elevated at ?%'',
          ''2 pod(s) in failed state'']
   \<and> determineClusterStatus (Fin 96) (Fin 85) 0 2 = ''Critical''"
proof -
  have h: "\<forall>n. dbExec quietWorld n = None" by (simp add: quietWorld_def)
  show ?thesis
    using h checkAndCreateAlerts_thresholds[OF h, of emptyStore "''c1''" "Fin 96" "Fin 85" 2 0 0]
    by (simp add: checkAndCreateAlerts_def raiseAlert_def SaveAlert_def createAlert_def newAlert_def
                  Let_def quietWorld_def emptyStore_def showInt_def determineClusterStatus_def)
qed

section \<open>Properties of the collection cycle\<close>

lemma checkAndCreateAlerts_snapshots:
  assumes "\<forall>n. dbExec w n = None"
  shows "snapshots (fst (checkAndCreateAlerts w s cluster cpu mem failedPods t)) = snapshots s"
proof -
  define cc where "cc = ''CPU usage is critically high at '' @ sprintF1 w cpu @ ''%''"
  define cw where "cw = ''CPU usage is elevated at '' @ sprintF1 w cpu @ ''%''"
  define mc where "mc = ''Memory usage is critically high at '' @ sprintF1 w mem @ ''%''"
  define mw where "mw = ''Memory usage is elevated at '' @ sprintF1 w mem @ ''%''"
  define mp where "mp = showInt failedPods @ '' pod(s) in failed state''"
  define X1 where "X1 = (if f64_gt cpu 95 then raiseAlert w s (newAlert cluster ''Critical'' cc) t
                 else if f64_gt cpu 80 then raiseAlert w s (newAlert cluster ''Warning'' cw) t
                 else (s, t))"
  define X2 where "X2 = (if f64_gt mem 95 then raiseAlert w (fst X1) (newAlert cluster ''Critical'' mc) (snd X1)
                 else if f64_gt mem 80 then raiseAlert w (fst X1) (newAlert cluster ''Warning'' mw) (snd X1)
                 else (fst X1, snd X1))"
  define X3 where "X3 = (if 0 < failedPods then raiseAlert w (fst X2) (newAlert cluster ''Warning'' mp) (snd X2)
                 else (fst X2, snd X2))"
  have run: "checkAndCreateAlerts w s cluster cpu mem failedPods t = X3"
    by (simp add: checkAndCreateAlerts_def X3_def X2_def X1_def cc_def cw_def mc_def mw_def mp_def
                  split_beta Let_def)
  have "snapshots (fst X1) = snapshots s" using level_stage[OF assms X1_def] by blast
  moreover have "snapshots (fst X2) = snapshots (fst X1)" using level_stage[OF assms X2_def] by blast
  moreover have "snapshots (fst X3) = snapshots (fst X2)" using pod_stage[OF assms X3_def] by blast
  ultimately show ?thesis by (simp add: run)
qed

lemma gatherSnapshot_fields:
  "snap_ID (fst (gatherSnapshot w k8s cfg t)) = 0
   \<and> snap_Cluster (fst (gatherSnapshot w k8s cfg t)) = cfg_Name cfg
   \<and> snap_NodeCount (fst (gatherSnapshot w k8s cfg t)) =
       (case fst (GetNodeCount w k8s (cfg_Name cfg) t) of Inl err \<Rightarrow> 0 | Inr n \<Rightarrow> n)
   \<and> snap_PodCount (fst (gatherSnapshot w k8s cfg t)) =
       (case fst (GetPodSummary w k8s (cfg_Name cfg) (snd (GetNodeCount w k8s (cfg_Name cfg) t))) of
          Inl err \<Rightarrow> 0 | Inr (running, pending, failedPods, podCount) \<Rightarrow> podCount)"
  by (simp add: gatherSnapshot_def Let_def split_beta split: sum.splits)


lemma SaveSnapshot_appends:
  assumes "dbExec w t = None" "snap_ID snapshot = 0"
  shows "SaveSnapshot w s snapshot t =
           (None, snapshot\<lparr>snap_ID := Suc (snapshotSeq s), snap_Timestamp := clock w t\<rparr>,
            s\<lparr>snapshots := snapshots s
                    @ [snapshot\<lparr>snap_ID := Suc (snapshotSeq s), snap_Timestamp := clock w t\<rparr>],
              snapshotSeq := Suc (snapshotSeq s)\<rparr>,
            Suc t)"
  using assms by (simp add: SaveSnapshot_def createSnapshot_def Let_def)

lemma collectCluster_disabled:
  "\<not> cfg_Enabled cfg \<Longrightarrow> collectCluster w k8s (s, t) cfg = (s, t)"
  by (simp add: collectCluster_def)

lemma collectCluster_enabled:
  assumes db: "\<forall>n. dbExec w n = None" and en: "cfg_Enabled cfg"
  shows "\<exists>i ts. snapshots (fst (collectCluster w k8s (s, t) cfg)) =
            snapshots s @ [(fst (gatherSnapshot w k8s cfg t))\<lparr>snap_ID := i, snap_Timestamp := ts\<rparr>]"
proof -
  define g where "g = gatherSnapshot w k8s cfg t"
  define snapshot where "snapshot = fst g"
  define failed where "failed = fst (snd g)"
  define t1 where "t1 = snd (snd g)"
  define saved where "saved = snapshot\<lparr>snap_ID := Suc (snapshotSeq s), snap_Timestamp := clock w t1\<rparr>"
  define s1 where "s1 = s\<lparr>snapshots := snapshots s @ [saved], snapshotSeq := Suc (snapshotSeq s)\<rparr>"
  have id0: "snap_ID snapshot = 0"
    unfolding snapshot_def g_def using gatherSnapshot_fields[of w k8s cfg t] by blast
  have d: "dbExec w t1 = None" using db by simp
  have sv: "SaveSnapshot w s snapshot t1 = (None, saved, s1, Suc t1)"
    unfolding saved_def s1_def by (rule SaveSnapshot_appends[OF d id0])
  have "collectCluster w k8s (s, t) cfg =
          checkAndCreateAlerts w s1 (cfg_Name cfg) (snap_CPUUsage saved) (snap_MemoryUsage saved) failed (Suc t1)"
    using en sv by (simp add: collectCluster_def split_beta g_def[symmetric] snapshot_def[symmetric]
                      failed_def[symmetric] t1_def[symmetric])
  then have "snapshots (fst (collectCluster w k8s (s, t) cfg)) = snapshots s1"
    by (simp only: checkAndCreateAlerts_snapshots[OF db])
  then have "snapshots (fst (collectCluster w k8s (s, t) cfg)) = snapshots s @ [saved]"
    by (simp add: s1_def)
  then show ?thesis unfolding saved_def snapshot_def g_def by blast
qed

lemma collect_fold:
  assumes db: "\<forall>n. dbExec w n = None"
  shows "\<exists>new. snapshots (fst (foldl (collectCluster w k8s) (s, t) cfgs)) = snapshots s @ new
           \<and> list_all2 (\<lambda>cfg x. \<exists>t' i ts.
                   x = (fst (gatherSnapshot w k8s cfg t'))\<lparr>snap_ID := i, snap_Timestamp := ts\<rparr>)
                 (filter cfg_Enabled cfgs) new"
proof (induction cfgs arbitrary: s t)
  case Nil
  show ?case by simp
next
  case (Cons cfg rest)
  obtain s1 t1 where st: "collectCluster w k8s (s, t) cfg = (s1, t1)" by (cases "collectCluster w k8s (s, t) cfg")
  obtain new where new: "snapshots (fst (foldl (collectCluster w k8s) (s1, t1) rest)) = snapshots s1 @ new"
     "list_all2 (\<lambda>cfg x. \<exists>t' i ts.
                   x = (fst (gatherSnapshot w k8s cfg t'))\<lparr>snap_ID := i, snap_Timestamp := ts\<rparr>)
                 (filter cfg_Enabled rest) new"
    using Cons.IH[of s1 t1] by blast
  show ?case
  proof (cases "cfg_Enabled cfg")
    case False
    then have "s1 = s" "t1 = t" using st collectCluster_disabled[of cfg w k8s s t] by simp_all
    then show ?thesis using new False st by auto
  next
    case True
    obtain i ts where x: "snapshots s1 =
        snapshots s @ [(fst (gatherSnapshot w k8s cfg t))\<lparr>snap_ID := i, snap_Timestamp := ts\<rparr>]"
      using collectCluster_enabled[OF db True, of k8s s t] st by auto
    let ?x = "(fst (gatherSnapshot w k8s cfg t))\<lparr>snap_ID := i, snap_Timestamp := ts\<rparr>"
    have a: "snapshots (fst (foldl (collectCluster w k8s) (s, t) (cfg # rest))) = snapshots s @ (?x # new)"
      using new(1) x st by simp
    have b: "list_all2 (\<lambda>cfg x. \<exists>t' i ts.
                   x = (fst (gatherSnapshot w k8s cfg t'))\<lparr>snap_ID := i, snap_Timestamp := ts\<rparr>)
                 (filter cfg_Enabled (cfg # rest)) (?x # new)"
      using new(2) True by auto
    show ?thesis using a b by blast
  qed
qed


lemma list_all2_map_eq:
  "list_all2 R xs ys \<Longrightarrow> (\<And>x y. R x y \<Longrightarrow> f y = g x) \<Longrightarrow> map f ys = map g xs"
  by (induction rule: list_all2_induct) simp_all

text \<open>
  C2. When the database executes its statements, one collection cycle over the
  configured clusters appends to the snapshot table exactly one snapshot for every
  enabled cluster, in the order of the configuration, and none for a disabled one;
  this holds whatever the inventory and metrics calls return. Each appended snapshot is
  the one gathered for its cluster, with the key and the timestamp the store gives it.
  The gathered snapshot names its cluster; its node count is the count returned, or
  zero when the node-count call fails; its pod count is the total returned, or zero
  when the pod-summary call fails. So the failure of one cluster's calls leaves the
  snapshots of the other clusters in place. Without a Kubernetes service the cycle does
  nothing.
\<close>

theorem collectMetrics_snapshots:
  assumes "\<forall>n. dbExec w n = None"
  shows "(\<exists>new. snapshots (fst (collectMetrics w (Some svc) s t)) = snapshots s @ new
            \<and> map snap_Cluster new = map cfg_Name (filter cfg_Enabled (GetConfigs svc))
            \<and> list_all2 (\<lambda>cfg x. \<exists>t' i ts.
                   x = (fst (gatherSnapshot w svc cfg t'))\<lparr>snap_ID := i, snap_Timestamp := ts\<rparr>)
                 (filter cfg_Enabled (GetConfigs svc)) new)
       \<and> (\<forall>cfg t'.
              snap_Cluster (fst (gatherSnapshot w svc cfg t')) = cfg_Name cfg
            \<and> snap_NodeCount (fst (gatherSnapshot w svc cfg t')) =
                (case fst (GetNodeCount w svc (cfg_Name cfg) t') of Inl err \<Rightarrow> 0 | Inr n \<Rightarrow> n)
            \<and> snap_PodCount (fst (gatherSnapshot w svc cfg t')) =
                (case fst (GetPodSummary w svc (cfg_Name cfg) (snd (GetNodeCount w svc (cfg_Name cfg) t'))) of
                   Inl err \<Rightarrow> 0
                 | Inr (running, pending, failedPods, podCount) \<Rightarrow> podCount))
       \<and> collectMetrics w None s t = (s, t)"
proof -
  let ?R = "\<lambda>cfg x. \<exists>t' i ts.
                   x = (fst (gatherSnapshot w svc cfg t'))\<lparr>snap_ID := i, snap_Timestamp := ts\<rparr>"
  obtain new where new: "snapshots (fst (foldl (collectCluster w svc) (s, t) (GetConfigs svc))) = snapshots s @ new"
      "list_all2 ?R (filter cfg_Enabled (GetConfigs svc)) new"
    using collect_fold[OF assms, of svc s t "GetConfigs svc"] by blast
  have cl: "map snap_Cluster new = map cfg_Name (filter cfg_Enabled (GetConfigs svc))"
  proof (rule list_all2_map_eq[OF new(2)])
    fix cfg x assume "?R cfg x"
    then obtain t' i ts where
      "x = (fst (gatherSnapshot w svc cfg t'))\<lparr>snap_ID := i, snap_Timestamp := ts\<rparr>" by blast
    then show "snap_Cluster x = cfg_Name cfg"
      using gatherSnapshot_fields[of w svc cfg t'] by simp
  qed
  have a: "\<exists>new. snapshots (fst (collectMetrics w (Some svc) s t)) = snapshots s @ new
            \<and> map snap_Cluster new = map cfg_Name (filter cfg_Enabled (GetConfigs svc))
            \<and> list_all2 ?R (filter cfg_Enabled (GetConfigs svc)) new"
    using new cl by (auto simp: collectMetrics_def)
  have b: "\<forall>cfg t'.
              snap_Cluster (fst (gatherSnapshot w svc cfg t')) = cfg_Name cfg
            \<and> snap_NodeCount (fst (gatherSnapshot w svc cfg t')) =
                (case fst (GetNodeCount w svc (cfg_Name cfg) t') of Inl err \<Rightarrow> 0 | Inr n \<Rightarrow> n)
            \<and> snap_PodCount (fst (gatherSnapshot w svc cfg t')) =
                (case fst (GetPodSummary w svc (cfg_Name cfg) (snd (GetNodeCount w svc (cfg_Name cfg) t'))) of
                   Inl err \<Rightarrow> 0
                 | Inr (running, pending, failedPods, podCount) \<Rightarrow> podCount)"
    using gatherSnapshot_fields[of w svc] by blast
  have c: "collectMetrics w None s t = (s, t)" by (simp add: collectMetrics_def)
  show ?thesis using a b c by (intro conjI)
qed

text \<open>
  Cluster a is enabled and every inventory call for it fails (it has no client),
  cluster b is disabled, cluster c answers with two nodes and one pod: the cycle writes
  a snapshot for a with zero counts and a snapshot for c with its counts.
\<close>

theorem collectMetrics_snapshots_witness:
  "(\<forall>n. dbExec busyWorld n = None)
   \<and> map (\<lambda>x. (snap_Cluster x, snap_NodeCount x, snap_PodCount x))
         (snapshots (fst (collectMetrics busyWorld (Some threeClusters) emptyStore 0)))
       = [(''a'', 0, 0), (''c'', 2, 1)]"
proof -
  have h: "\<forall>n. dbExec busyWorld n = None" by (simp add: busyWorld_def quietWorld_def)
  have na: "GetNodeCount busyWorld threeClusters ''a'' t = (Inl (Err ''cluster a not found''), t)" for t
    by (simp add: GetNodeCount_def GetNodes_def GetClient_def threeClusters_def)
  have nc: "GetNodeCount busyWorld threeClusters ''c'' t = (Inr 2, Suc (Suc (Suc t)))" for t
    by (simp add: GetNodeCount_def GetNodes_def GetClient_def threeClusters_def busyWorld_def
          quietWorld_def Let_def split_beta)
  have pa: "GetPodSummary busyWorld threeClusters ''a'' t = (Inl (Err ''cluster a not found''), t)" for t
    by (simp add: GetPodSummary_def GetPods_def GetClient_def threeClusters_def)
  have pc: "GetPodSummary busyWorld threeClusters ''c'' t = (Inr (1, 0, 0, 1), Suc (Suc t))" for t
    by (simp add: GetPodSummary_def GetPods_def GetClient_def threeClusters_def busyWorld_def
          quietWorld_def Let_def split_beta countPods_def sampleK8sPod_def NamespaceAll_def)
  have up: "CheckConnectivity busyWorld u t = (False, Suc t)" for u t
    by (simp add: CheckConnectivity_def Query_def busyWorld_def quietWorld_def)
  have ga: "gatherSnapshot busyWorld threeClusters (sampleConfig ''a'' True) t =
              (sampleSnapshot 0 ''a'' zeroTime, 0, Suc t)" for t
    by (simp add: gatherSnapshot_def na pa up sampleConfig_def sampleSnapshot_def)
  have gc: "gatherSnapshot busyWorld threeClusters (sampleConfig ''c'' True) t =
              ((sampleSnapshot 0 ''c'' zeroTime)\<lparr>snap_PodCount := 1, snap_NodeCount := 2\<rparr>, 0,
               Suc (Suc (Suc (Suc (Suc (Suc t))))))" for t
    by (simp add: gatherSnapshot_def nc pc up sampleConfig_def sampleSnapshot_def)
  have ck: "checkAndCreateAlerts busyWorld s c (Fin 0) (Fin 0) 0 t = (s, t)" for s c t
    by (simp add: checkAndCreateAlerts_def)
  have r: "map (\<lambda>x. (snap_Cluster x, snap_NodeCount x, snap_PodCount x))
         (snapshots (fst (collectMetrics busyWorld (Some threeClusters) emptyStore 0)))
       = [(''a'', 0, 0), (''c'', 2, 1)]"
    using h by (simp add: collectMetrics_def GetConfigs_def collectCluster_def ga gc ck
          SaveSnapshot_def createSnapshot_def Let_def emptyStore_def sampleSnapshot_def
          threeClusters_def[THEN arg_cong, of ks_configs] sampleConfig_def[THEN arg_cong, of cfg_Enabled])
  show ?thesis
    using h r collectMetrics_snapshots[OF h, of threeClusters emptyStore 0] by blast
qed

section \<open>Properties of the start of the process\<close>








section \<open>Properties of the age labels\<close>

subsection \<open>Rounding to the nearest integer, ties to even\<close>

lemma rne_of_int: "rne (of_int n) = n"
  by (simp add: rne_def)

lemma rne_mono: "x \<le> y \<Longrightarrow> rne x \<le> rne y"
proof -
  assume xy: "x \<le> y"
  have fx: "\<lfloor>x\<rfloor> \<le> \<lfloor>y\<rfloor>" using xy by (rule floor_mono)
  show ?thesis
  proof (cases "\<lfloor>x\<rfloor> = \<lfloor>y\<rfloor>")
    case True
    then show ?thesis using xy by (auto simp: rne_def Let_def)
  next
    case False
    then have "\<lfloor>x\<rfloor> + 1 \<le> \<lfloor>y\<rfloor>" using fx by simp
    moreover have "rne x \<le> \<lfloor>x\<rfloor> + 1" by (simp add: rne_def Let_def)
    moreover have "\<lfloor>y\<rfloor> \<le> rne y" by (simp add: rne_def Let_def)
    ultimately show ?thesis by linarith
  qed
qed

lemma rne_neg: "rne (- y) = - rne y"
proof (cases "y \<in> \<int>")
  case True
  then obtain n where "y = of_int n" by (auto elim: Ints_cases)
  then show ?thesis using rne_of_int[of "-n"] by (simp add: rne_of_int)
next
  case False
  then have ne: "y \<noteq> of_int \<lfloor>y\<rfloor>" by (metis Ints_of_int)
  then have r: "0 < y - of_int \<lfloor>y\<rfloor>" using of_int_floor_le[of y] by linarith
  have f: "\<lfloor>- y\<rfloor> = - \<lfloor>y\<rfloor> - 1"
    using ne by (simp add: floor_minus ceiling_altdef)
  show ?thesis
    unfolding rne_def Let_def f using r by (auto simp: algebra_simps)
qed

subsection \<open>Powers of two\<close>

lemma p2_pos: "0 < p2 k"
  by (simp add: p2_def)

lemma p2_add: "p2 (a + b) = p2 a * p2 b"
  by (simp add: p2_def powr_add)

lemma p2_nat: "p2 (int n) = 2 ^ n"
  by (simp add: p2_def powr_realpow)

lemma p2_mono: "a \<le> b \<Longrightarrow> p2 a \<le> p2 b"
  by (simp add: p2_def)

lemma p2_less_iff: "p2 a < p2 b \<longleftrightarrow> a < b"
  by (simp add: p2_def)

lemma p2_split52: "p2 e = 2 ^ 52 * p2 (e - 52)"
  using p2_add[of 52 "e - 52"] p2_nat[of 52] by simp

lemma p2_split53: "p2 (e + 1) = 2 ^ 53 * p2 (e - 52)"
proof -
  have "e + 1 = 53 + (e - 52)" by simp
  then have "p2 (e + 1) = p2 53 * p2 (e - 52)" by (simp only: p2_add)
  then show ?thesis using p2_nat[of 53] by simp
qed

subsection \<open>Rounding to 53 significant bits\<close>

lemma ex2_bounds:
  assumes "x \<noteq> 0"
  shows "p2 (ex2 x) \<le> \<bar>x\<bar>" and "\<bar>x\<bar> < p2 (ex2 x + 1)"
  using floor_log_eq_powr_iff[of "\<bar>x\<bar>" 2 "ex2 x"] assms by (auto simp: ex2_def p2_def)

lemma fl_neg: "fl (- x) = - fl x"
  by (simp add: fl_def ex2_def rne_neg)

lemma scaled_bounds:
  assumes "0 < x"
  shows "2 ^ 52 \<le> x / p2 (ex2 x - 52)" and "x / p2 (ex2 x - 52) < 2 ^ 53"
proof -
  have x0: "x \<noteq> 0" using assms by simp
  have a: "p2 (ex2 x) \<le> x" and b: "x < p2 (ex2 x + 1)"
    using ex2_bounds[OF x0] assms by simp_all
  show "2 ^ 52 \<le> x / p2 (ex2 x - 52)"
    using a p2_split52[of "ex2 x"] p2_pos[of "ex2 x - 52"] by (simp add: pos_le_divide_eq)
  show "x / p2 (ex2 x - 52) < 2 ^ 53"
    using b p2_split53[of "ex2 x"] p2_pos[of "ex2 x - 52"] by (simp add: pos_divide_less_eq)
qed

lemma fl_pos_bounds:
  assumes "0 < x"
  shows "p2 (ex2 x) \<le> fl x" and "fl x \<le> p2 (ex2 x + 1)"
proof -
  let ?u = "p2 (ex2 x - 52)"
  have u: "0 \<le> ?u" using p2_pos[of "ex2 x - 52"] by simp
  have "rne (of_int (2 ^ 52)) \<le> rne (x / ?u)"
    using scaled_bounds(1)[OF assms] by (intro rne_mono) simp
  then have lo: "2 ^ 52 \<le> rne (x / ?u)" by (simp only: rne_of_int)
  have "rne (x / ?u) \<le> rne (of_int (2 ^ 53))"
    using scaled_bounds(2)[OF assms] by (intro rne_mono) simp
  then have hi: "rne (x / ?u) \<le> 2 ^ 53" by (simp only: rne_of_int)
  have f: "fl x = of_int (rne (x / ?u)) * ?u" using assms by (simp add: fl_def)
  have "real_of_int (2 ^ 52) \<le> of_int (rne (x / ?u))" using lo by (simp only: of_int_le_iff)
  then have "2 ^ 52 * ?u \<le> of_int (rne (x / ?u)) * ?u"
    using u by (intro mult_right_mono) simp_all
  then show "p2 (ex2 x) \<le> fl x" unfolding f using p2_split52[of "ex2 x"] by simp
  have "of_int (rne (x / ?u)) \<le> real_of_int (2 ^ 53)" using hi by (simp only: of_int_le_iff)
  then have "of_int (rne (x / ?u)) * ?u \<le> 2 ^ 53 * ?u"
    using u by (intro mult_right_mono) simp_all
  then show "fl x \<le> p2 (ex2 x + 1)" unfolding f using p2_split53[of "ex2 x"] by simp
qed

lemma ex2_mono: "0 < x \<Longrightarrow> x \<le> y \<Longrightarrow> ex2 x \<le> ex2 y"
  unfolding ex2_def by (intro floor_mono) (simp add: log_le_cancel_iff)

lemma fl_mono_pos:
  assumes "0 < x" "x \<le> y"
  shows "fl x \<le> fl y"
proof (cases "ex2 x = ex2 y")
  case True
  let ?u = "p2 (ex2 x - 52)"
  have u: "0 \<le> ?u" using p2_pos[of "ex2 x - 52"] by simp
  have "x / ?u \<le> y / ?u" using assms u by (simp add: divide_right_mono)
  then have "rne (x / ?u) \<le> rne (y / ?u)" by (rule rne_mono)
  then have "real_of_int (rne (x / ?u)) \<le> of_int (rne (y / ?u))" by (simp only: of_int_le_iff)
  then have "of_int (rne (x / ?u)) * ?u \<le> of_int (rne (y / ?u)) * ?u"
    using u by (intro mult_right_mono) simp_all
  then show ?thesis using assms True by (simp add: fl_def)
next
  case False
  then have "ex2 x + 1 \<le> ex2 y" using ex2_mono[OF assms] by simp
  then have "p2 (ex2 x + 1) \<le> p2 (ex2 y)" by (rule p2_mono)
  moreover have "fl x \<le> p2 (ex2 x + 1)" using fl_pos_bounds(2)[OF assms(1)] .
  moreover have "p2 (ex2 y) \<le> fl y" using fl_pos_bounds(1)[of y] assms by simp
  ultimately show ?thesis by linarith
qed

lemma fl_nonneg: "0 \<le> x \<Longrightarrow> 0 \<le> fl x"
proof (cases "x = 0")
  case True then show ?thesis by (simp add: fl_def)
next
  case False
  assume "0 \<le> x"
  then have "0 < x" using False by simp
  from fl_pos_bounds(1)[OF this] p2_pos[of "ex2 x"] show ?thesis by linarith
qed

lemma fl_mono: "x \<le> y \<Longrightarrow> fl x \<le> fl y"
proof -
  assume xy: "x \<le> y"
  consider "0 < x" | "x \<le> 0" "0 \<le> y" | "y < 0" by linarith
  then show ?thesis
  proof cases
    case 1 then show ?thesis using xy by (rule fl_mono_pos)
  next
    case 2
    have "0 \<le> fl (- x)" using 2 by (intro fl_nonneg) simp
    then have "fl x \<le> 0" by (simp add: fl_neg)
    moreover have "0 \<le> fl y" using 2 by (intro fl_nonneg)
    ultimately show ?thesis by linarith
  next
    case 3
    have "fl (- y) \<le> fl (- x)" using 3 xy by (intro fl_mono_pos) simp_all
    then show ?thesis by (simp add: fl_neg)
  qed
qed

lemma fl_repr:
  assumes "\<bar>m\<bar> < 2 ^ 53"
  shows "fl (of_int m * p2 k) = of_int m * p2 k"
proof (cases "m = 0")
  case True then show ?thesis by (simp add: fl_def)
next
  case False
  define x where "x = of_int m * p2 k"
  define e where "e = ex2 x"
  define u where "u = p2 (e - 52)"
  have x0: "x \<noteq> 0" using False p2_pos[of k] by (simp add: x_def)
  have u0: "u \<noteq> 0" using p2_pos[of "e - 52"] by (simp add: u_def)
  have ax: "\<bar>x\<bar> = of_int \<bar>m\<bar> * p2 k" using p2_pos[of k] by (simp add: x_def abs_mult)
  have "real_of_int \<bar>m\<bar> < of_int (2 ^ 53)" using assms by (simp only: of_int_less_iff)
  then have "\<bar>x\<bar> < 2 ^ 53 * p2 k" unfolding ax
    using p2_pos[of k] by (intro mult_strict_right_mono) simp_all
  also have "\<dots> = p2 (53 + k)" using p2_nat[of 53] by (simp add: p2_add)
  finally have "p2 e < p2 (53 + k)"
    using ex2_bounds(1)[OF x0] by (simp add: e_def)
  then have "e < 53 + k" by (simp only: p2_less_iff)
  then have "0 \<le> k - (e - 52)" by simp
  then obtain j :: nat where "k - (e - 52) = int j" using nonneg_int_cases by blast
  then have j: "k = (e - 52) + int j" by simp
  have pk: "p2 k = u * 2 ^ j"
    by (subst j) (simp add: p2_add p2_nat u_def)
  have "x / u = of_int (m * 2 ^ j)" using u0 by (simp add: x_def pk)
  then have "rne (x / u) = m * 2 ^ j" by (simp only: rne_of_int)
  then have "fl x = of_int (m * 2 ^ j) * u" using x0 by (simp add: fl_def u_def e_def)
  also have "\<dots> = x" by (simp add: x_def pk)
  finally show ?thesis by (simp add: x_def)
qed



subsection \<open>Durations in hours, minutes and seconds\<close>


lemma sdiv_smod_neg:
  fixes d U :: int
  assumes "d < 0" "0 < U"
  shows "d sdiv U = - ((- d) div U)" "d smod U = - ((- d) mod U)"
  using assms by (auto simp: signed_divide_int_def signed_modulo_int_def sgn_if)

lemma fl_dyadic: "\<bar>m\<bar> < 2 ^ 53 \<Longrightarrow> fl (of_int m / 2 ^ n) = of_int m / 2 ^ n"
proof -
  assume m: "\<bar>m\<bar> < 2 ^ 53"
  have "p2 (- int n) = 1 / 2 ^ n"
    by (simp add: p2_def powr_minus powr_realpow inverse_eq_divide)
  then show ?thesis using fl_repr[OF m, of "- int n"] by simp
qed

lemma fl_le_dyadic: "x \<le> of_int m / 2 ^ n \<Longrightarrow> \<bar>m\<bar> < 2 ^ 53 \<Longrightarrow> fl x \<le> of_int m / 2 ^ n"
  using fl_mono[of x "of_int m / 2 ^ n"] fl_dyadic[of m n] by simp


lemma fl_le_int: "x \<le> of_int m \<Longrightarrow> \<bar>m\<bar> < 2 ^ 53 \<Longrightarrow> fl x \<le> of_int m"
  using fl_le_dyadic[of x m 0] by simp




lemma fl_le_int': "x \<le> of_int m \<Longrightarrow> \<bar>m\<bar> < 9007199254740992 \<Longrightarrow> fl x \<le> of_int m"
  using fl_le_int[of x m] by simp






lemma units_neg:
  fixes d U :: int
  assumes U: "1000000000 \<le> U" "U \<le> 4398046511104" and d: "d < 0" "- 9223372036854775808 \<le> d"
    and F: "F = fl (fl (of_int (d sdiv U)) + fl (fl (of_int (d smod U)) / of_int U))"
  shows "F \<le> 0"
proof -
  define q where "q = (- d) div U"
  define r where "r = (- d) mod U"
  have U0: "0 < U" using U by linarith
  have dn: "0 \<le> - d - 1" "- d - 1 \<le> 9223372036854775807" using d by linarith+
  have q0: "0 \<le> q" unfolding q_def using d U0 by (simp add: pos_imp_zdiv_nonneg_iff)
  have r: "0 \<le> r" "r < U" unfolding r_def using U0 by simp_all
  have sd: "d sdiv U = - q" "d smod U = - r"
    unfolding q_def r_def using sdiv_smod_neg[OF d(1) U0] by simp_all
  have "fl (real_of_int (- r)) \<le> real_of_int 0" using r by (intro fl_le_int') simp_all
  then have "fl (real_of_int (- r)) / of_int U \<le> real_of_int 0"
    using U0 by (simp add: divide_le_0_iff)
  then have x: "fl (fl (real_of_int (- r)) / of_int U) \<le> real_of_int 0"
    by (intro fl_le_int') simp_all
  have "fl (real_of_int (- q)) \<le> real_of_int 0" using q0 by (intro fl_le_int') simp_all
  then have "fl (real_of_int (- q)) + fl (fl (real_of_int (- r)) / of_int U) \<le> real_of_int 0"
    using x by linarith
  then have "fl (fl (real_of_int (- q)) + fl (fl (real_of_int (- r)) / of_int U)) \<le> real_of_int 0"
    by (intro fl_le_int') simp_all
  then show ?thesis unfolding F sd by simp
qed


lemma Minutes_F:
  "Minutes d = fl (fl (of_int (d sdiv 60000000000)) + fl (fl (of_int (d smod 60000000000)) / of_int 60000000000))"
  by (simp add: Minutes_def Minute_def Second_def)




lemma Minutes_neg: "d < 0 \<Longrightarrow> - 9223372036854775808 \<le> d \<Longrightarrow> Minutes d \<le> 0"
  by (rule units_neg[of 60000000000 d, OF _ _ _ _ Minutes_F]) simp_all




















end
